theory Spec2Isabelle
  imports Complex_Main "HOL-Library.Sublist"
begin

section \<open>Values of the host language\<close>

text \<open>
  The tools receive untyped arguments (\<^verbatim>\<open>unknown\<close>) and the validators inspect them at
  run time, so the arguments are modelled as values of a small universe of JavaScript
  values. A finite number is a rational (every double is one); the three non-finite
  numbers are constructors of their own. A string is a list of characters, read as
  UTF-16 code units below 256.
\<close>

datatype jsnum = Num rat | NaN | PosInf | NegInf

datatype jsval =
    JUndefined
  | JNull
  | JBool bool
  | JNum jsnum
  | JStr string
  | JArr "jsval list"
  | JObj "(string \<times> jsval) list"

text \<open>\<^verbatim>\<open>if (v)\<close>: the values that count as true.\<close>

fun truthy :: "jsval \<Rightarrow> bool" where
  "truthy JUndefined = False"
| "truthy JNull = False"
| "truthy (JBool b) = b"
| "truthy (JNum (Num q)) = (q \<noteq> 0)"
| "truthy (JNum NaN) = False"
| "truthy (JNum PosInf) = True"
| "truthy (JNum NegInf) = True"
| "truthy (JStr s) = (s \<noteq> [])"
| "truthy (JArr xs) = True"
| "truthy (JObj kvs) = True"

text \<open>\<^verbatim>\<open>Number.isInteger\<close> on a finite number.\<close>

definition isInteger :: "rat \<Rightarrow> bool" where
  "isInteger q = (of_int \<lfloor>q\<rfloor> = q)"

subsection \<open>Strings\<close>

definition isWhiteSpace :: "char \<Rightarrow> bool" where
  "isWhiteSpace c = ((of_char c :: nat) \<in> {9, 10, 11, 12, 13, 32, 160})"

text \<open>\<^verbatim>\<open>String.prototype.trim\<close>.\<close>

definition trim :: "string \<Rightarrow> string" where
  "trim s = rev (dropWhile isWhiteSpace (rev (dropWhile isWhiteSpace s)))"

text \<open>\<^verbatim>\<open>String.prototype.toLowerCase\<close> on code units below 256: the letters A to Z and
  the capital letters of the Latin-1 block move up by 32.\<close>

definition toLowerChar :: "char \<Rightarrow> char" where
  "toLowerChar c =
     (let n = (of_char c :: nat)
      in if (65 \<le> n \<and> n \<le> 90) \<or> (192 \<le> n \<and> n \<le> 222 \<and> n \<noteq> 215)
         then char_of (n + 32) else c)"

definition toLowerCase :: "string \<Rightarrow> string" where
  "toLowerCase s = map toLowerChar s"

text \<open>\<^verbatim>\<open>String.prototype.includes\<close>: a search for the needle at every position.\<close>

fun js_includes :: "string \<Rightarrow> string \<Rightarrow> bool" where
  "js_includes [] t = (t = [])"
| "js_includes (c # cs) t = (prefix t (c # cs) \<or> js_includes cs t)"

section \<open>The error taxonomy (error-handler.ts)\<close>

datatype ErrorCode =
    INTERNAL_ERROR
  | UNKNOWN_ERROR
  | GRAPH_API_ERROR
  | INVALID_PARAMETER
  | MISSING_PARAMETER
  | UNAUTHORIZED
  | FORBIDDEN
  | NOT_FOUND
  | INVALID_RESPONSE
  | RATE_LIMITED
  | NETWORK_ERROR
  | TIMEOUT

text \<open>The string value of each member of the enum (what \<^verbatim>\<open>error.code\<close> holds).\<close>

fun ErrorCode_value :: "ErrorCode \<Rightarrow> string" where
  "ErrorCode_value INTERNAL_ERROR = ''INTERNAL_ERROR''"
| "ErrorCode_value UNKNOWN_ERROR = ''UNKNOWN_ERROR''"
| "ErrorCode_value GRAPH_API_ERROR = ''GRAPH_API_ERROR''"
| "ErrorCode_value INVALID_PARAMETER = ''INVALID_PARAMETER''"
| "ErrorCode_value MISSING_PARAMETER = ''MISSING_PARAMETER''"
| "ErrorCode_value UNAUTHORIZED = ''UNAUTHORIZED''"
| "ErrorCode_value FORBIDDEN = ''FORBIDDEN''"
| "ErrorCode_value NOT_FOUND = ''NOT_FOUND''"
| "ErrorCode_value INVALID_RESPONSE = ''INVALID_RESPONSE''"
| "ErrorCode_value RATE_LIMITED = ''RATE_LIMITED''"
| "ErrorCode_value NETWORK_ERROR = ''NETWORK_ERROR''"
| "ErrorCode_value TIMEOUT = ''TIMEOUT''"

record MCPError =
  message :: string
  code :: ErrorCode
  details :: "(string \<times> jsval) list option"

text \<open>\<^verbatim>\<open>new MCPError(message, code)\<close> and \<^verbatim>\<open>new MCPError(message, code, details)\<close>.\<close>

definition newMCPError :: "string \<Rightarrow> ErrorCode \<Rightarrow> MCPError" where
  "newMCPError m c = \<lparr>message = m, code = c, details = None\<rparr>"

definition newMCPErrorD :: "string \<Rightarrow> ErrorCode \<Rightarrow> (string \<times> jsval) list \<Rightarrow> MCPError" where
  "newMCPErrorD m c d = \<lparr>message = m, code = c, details = Some d\<rparr>"

section \<open>Parameter validation (validation.ts)\<close>

definition DEFAULT_TOP_SMALL :: rat where "DEFAULT_TOP_SMALL = 10"
definition DEFAULT_TOP_MEDIUM :: rat where "DEFAULT_TOP_MEDIUM = 50"
definition DEFAULT_TOP_LARGE :: rat where "DEFAULT_TOP_LARGE = 100"
definition MAX_TOP :: int where "MAX_TOP = 999"
definition DEFAULT_DAYS :: rat where "DEFAULT_DAYS = 30"
definition MAX_DAYS :: int where "MAX_DAYS = 365"

text \<open>\<^verbatim>\<open>input.replace(/'/g, "''")\<close>: every match of the one-character pattern is replaced,
  left to right.\<close>

fun replace_quotes :: "string \<Rightarrow> string" where
  "replace_quotes [] = []"
| "replace_quotes (c # cs) =
     (if c = CHR 0x27 then CHR 0x27 # CHR 0x27 # replace_quotes cs else c # replace_quotes cs)"

fun escapeODataString :: "jsval \<Rightarrow> MCPError + string" where
  "escapeODataString (JStr input) = Inr (replace_quotes input)"
| "escapeODataString _ = Inl (newMCPError ''Input must be a string'' INVALID_PARAMETER)"

fun validateString :: "jsval \<Rightarrow> string \<Rightarrow> bool \<Rightarrow> MCPError + string" where
  "validateString JUndefined fieldName allowEmpty =
     Inl (newMCPError (fieldName @ '' is required'') INVALID_PARAMETER)"
| "validateString JNull fieldName allowEmpty =
     Inl (newMCPError (fieldName @ '' is required'') INVALID_PARAMETER)"
| "validateString (JStr v) fieldName allowEmpty =
     (if \<not> allowEmpty \<and> trim v = []
      then Inl (newMCPError (fieldName @ '' cannot be empty'') INVALID_PARAMETER)
      else Inr v)"
| "validateString _ fieldName allowEmpty =
     Inl (newMCPError (fieldName @ '' must be a string'') INVALID_PARAMETER)"

fun validateOptionalString :: "jsval \<Rightarrow> string \<Rightarrow> MCPError + string option" where
  "validateOptionalString JUndefined fieldName = Inr None"
| "validateOptionalString JNull fieldName = Inr None"
| "validateOptionalString v fieldName =
     (case validateString v fieldName False of Inl e \<Rightarrow> Inl e | Inr s \<Rightarrow> Inr (Some s))"

text \<open>The text of \<^verbatim>\<open>${maxValue}\<close> in a message: an integer prints in decimal.\<close>

fun show_nat :: "nat \<Rightarrow> string" where
  "show_nat n =
     (if n < 10 then [char_of (48 + n)] else show_nat (n div 10) @ [char_of (48 + n mod 10)])"

declare show_nat.simps [simp del]

definition show_int :: "int \<Rightarrow> string" where
  "show_int i = (if i < 0 then CHR ''-'' # show_nat (nat (- i)) else show_nat (nat i))"

fun validateTop :: "jsval \<Rightarrow> rat \<Rightarrow> int \<Rightarrow> MCPError + rat" where
  "validateTop JUndefined defaultValue maxValue = Inr defaultValue"
| "validateTop JNull defaultValue maxValue = Inr defaultValue"
| "validateTop (JNum (Num v)) defaultValue maxValue =
     (if \<not> isInteger v then Inl (newMCPError ''top must be an integer'' INVALID_PARAMETER)
      else if v < 1 then Inl (newMCPError ''top must be at least 1'' INVALID_PARAMETER)
      else if v > of_int maxValue
        then Inl (newMCPError (''top cannot exceed '' @ show_int maxValue) INVALID_PARAMETER)
      else Inr v)"
| "validateTop (JNum _) defaultValue maxValue =
     Inl (newMCPError ''top must be an integer'' INVALID_PARAMETER)"
| "validateTop _ defaultValue maxValue =
     Inl (newMCPError ''top must be a number'' INVALID_PARAMETER)"

fun validateDays :: "jsval \<Rightarrow> rat \<Rightarrow> MCPError + rat" where
  "validateDays JUndefined defaultValue = Inr defaultValue"
| "validateDays JNull defaultValue = Inr defaultValue"
| "validateDays (JNum (Num v)) defaultValue =
     (if \<not> isInteger v then Inl (newMCPError ''days must be an integer'' INVALID_PARAMETER)
      else if v < 1 then Inl (newMCPError ''days must be at least 1'' INVALID_PARAMETER)
      else if v > of_int MAX_DAYS
        then Inl (newMCPError (''days cannot exceed '' @ show_int MAX_DAYS) INVALID_PARAMETER)
      else Inr v)"
| "validateDays (JNum _) defaultValue =
     Inl (newMCPError ''days must be an integer'' INVALID_PARAMETER)"
| "validateDays _ defaultValue =
     Inl (newMCPError ''days must be a number'' INVALID_PARAMETER)"

fun isJStr :: "jsval \<Rightarrow> bool" where
  "isJStr (JStr s) = True"
| "isJStr _ = False"

fun theJStr :: "jsval \<Rightarrow> string" where
  "theJStr (JStr s) = s"
| "theJStr _ = []"

fun validateStringArray :: "jsval \<Rightarrow> string \<Rightarrow> MCPError + string list option" where
  "validateStringArray JUndefined fieldName = Inr None"
| "validateStringArray JNull fieldName = Inr None"
| "validateStringArray (JArr xs) fieldName =
     (if \<not> list_all isJStr xs
      then Inl (newMCPError (''All items in '' @ fieldName @ '' must be strings'') INVALID_PARAMETER)
      else if length xs = 0 then Inr None
      else Inr (Some (map theJStr xs)))"
| "validateStringArray _ fieldName =
     Inl (newMCPError (fieldName @ '' must be an array'') INVALID_PARAMETER)"

definition dangerous :: "string list" where
  "dangerous = [''$count'', ''$search'', ''$format'', ''$compute'', ''$apply'']"

text \<open>The \<^verbatim>\<open>for (const d of dangerous)\<close> loop: the first token found raises.\<close>

fun check_dangerous :: "string \<Rightarrow> string list \<Rightarrow> MCPError option" where
  "check_dangerous lowerValue [] = None"
| "check_dangerous lowerValue (d # ds) =
     (if js_includes lowerValue (toLowerCase d)
      then Some (newMCPError (''filter cannot contain '' @ d) INVALID_PARAMETER)
      else check_dangerous lowerValue ds)"

fun validateFilter :: "jsval \<Rightarrow> MCPError + string option" where
  "validateFilter JUndefined = Inr None"
| "validateFilter JNull = Inr None"
| "validateFilter (JStr v) =
     (if trim v = [] then Inr None
      else case check_dangerous (toLowerCase v) dangerous of
             Some e \<Rightarrow> Inl e
           | None \<Rightarrow> Inr (Some v))"
| "validateFilter _ = Inl (newMCPError ''filter must be a string'' INVALID_PARAMETER)"


section \<open>Raw failures and their classification (error-handler.ts)\<close>

text \<open>
  What an operation can throw: a classified error (\<^verbatim>\<open>instanceof MCPError\<close>), the value
  \<^verbatim>\<open>undefined\<close>, or any other object, of which the code reads
  \<^verbatim>\<open>response.error\<close>, \<^verbatim>\<open>response.status\<close>, \<^verbatim>\<open>response.headers\<close>,
  \<^verbatim>\<open>code\<close> and \<^verbatim>\<open>message\<close>, and which it may print with \<^verbatim>\<open>String(error)\<close>.
  An absent property is \<open>None\<close> (or \<open>JUndefined\<close> for a value that is only tested).
\<close>

record GraphErrorBody =
  ge_code :: "string option"
  ge_message :: "string option"
  ge_innerError :: jsval

record Response =
  resp_error :: "GraphErrorBody option"
  resp_status :: "int option"
  resp_headers :: "(string \<times> jsval) list option"

record RawError =
  err_response :: "Response option"
  err_code :: "string option"
  err_message :: "string option"
  err_string :: string

datatype thrown = ThrownMCP MCPError | ThrownRaw RawError | ThrownUndefined

text \<open>\<^verbatim>\<open>error?.response?.error\<close>\<close>

fun response_error :: "thrown \<Rightarrow> GraphErrorBody option" where
  "response_error (ThrownRaw e) =
     (case err_response e of None \<Rightarrow> None | Some r \<Rightarrow> resp_error r)"
| "response_error _ = None"

text \<open>\<^verbatim>\<open>error?.response?.status\<close>, where it is tested for truth: a status of 0 counts as
  absent.\<close>

fun response_status :: "thrown \<Rightarrow> int option" where
  "response_status (ThrownRaw e) =
     (case err_response e of
        None \<Rightarrow> None
      | Some r \<Rightarrow> (case resp_status r of
                    None \<Rightarrow> None
                  | Some st \<Rightarrow> if st = 0 then None else Some st))"
| "response_status _ = None"

text \<open>\<^verbatim>\<open>error?.response?.headers?.[name]\<close>\<close>

fun response_header :: "thrown \<Rightarrow> string \<Rightarrow> jsval" where
  "response_header (ThrownRaw e) name =
     (case err_response e of
        None \<Rightarrow> JUndefined
      | Some r \<Rightarrow> (case resp_headers r of
                    None \<Rightarrow> JUndefined
                  | Some hs \<Rightarrow> (case map_of hs name of None \<Rightarrow> JUndefined | Some v \<Rightarrow> v)))"
| "response_header _ name = JUndefined"

text \<open>\<^verbatim>\<open>error?.code\<close>: a classified error holds the string of its enum member.\<close>

fun error_code :: "thrown \<Rightarrow> string option" where
  "error_code (ThrownMCP e) = Some (ErrorCode_value (code e))"
| "error_code (ThrownRaw e) = err_code e"
| "error_code ThrownUndefined = None"

text \<open>\<^verbatim>\<open>error?.message\<close>\<close>

fun error_message :: "thrown \<Rightarrow> string option" where
  "error_message (ThrownMCP e) = Some (message e)"
| "error_message (ThrownRaw e) = err_message e"
| "error_message ThrownUndefined = None"

text \<open>\<^verbatim>\<open>String(error)\<close>: an Error prints as its name, followed by its message when
  there is one.\<close>

fun String_of :: "thrown \<Rightarrow> string" where
  "String_of (ThrownMCP e) =
     (if message e = [] then ''MCPError'' else ''MCPError: '' @ message e)"
| "String_of (ThrownRaw e) = err_string e"
| "String_of ThrownUndefined = ''undefined''"

definition mapGraphErrorCode :: "string \<Rightarrow> ErrorCode" where
  "mapGraphErrorCode graphCode =
     (if graphCode = ''Unauthorized'' \<or> graphCode = ''AuthenticationFailed''
         \<or> graphCode = ''AuthenticationCanceled'' then UNAUTHORIZED
      else if graphCode = ''Forbidden'' \<or> graphCode = ''AuthorizationFailed'' then FORBIDDEN
      else if graphCode = ''Request_ResourceNotFound'' \<or> graphCode = ''ResourceNotFound''
         \<or> graphCode = ''UserNotFound'' \<or> graphCode = ''GroupNotFound''
         \<or> graphCode = ''ApplicationNotFound'' then NOT_FOUND
      else if graphCode = ''TooManyRequests'' \<or> graphCode = ''RateLimitExceeded''
         \<or> graphCode = ''ThrottledRequest'' then RATE_LIMITED
      else if graphCode = ''BadRequest'' \<or> graphCode = ''InvalidRequest''
         \<or> graphCode = ''InvalidFilter'' \<or> graphCode = ''InvalidQueryParameter''
        then INVALID_PARAMETER
      else if graphCode = ''Timeout'' \<or> graphCode = ''RequestTimeout'' then TIMEOUT
      else GRAPH_API_ERROR)"

text \<open>The last two branches of \<^verbatim>\<open>handleGraphError\<close>: a network error code, else the
  generic error.\<close>

definition network_or_generic :: "thrown \<Rightarrow> MCPError" where
  "network_or_generic error =
     (if error_code error = Some ''ECONNREFUSED'' \<or> error_code error = Some ''ENOTFOUND''
         \<or> error_code error = Some ''ETIMEDOUT''
      then newMCPErrorD ''Network error connecting to Microsoft Graph API'' NETWORK_ERROR
             [(''originalCode'', JStr (the (error_code error)))]
      else
        (let m = (case error_message error of None \<Rightarrow> [] | Some t \<Rightarrow> t)
         in newMCPErrorD (if m \<noteq> [] then m else ''An unexpected error occurred'') UNKNOWN_ERROR
              [(''originalError'', JStr (if m \<noteq> [] then m else String_of error))]))"

text \<open>\<^verbatim>\<open>handleGraphError\<close> never returns: the value here is the error it throws.\<close>

definition handleGraphError :: "thrown \<Rightarrow> MCPError" where
  "handleGraphError error =
     (case response_error error of
        Some graphError \<Rightarrow>
          newMCPErrorD
            (''Microsoft Graph API Error: ''
               @ (case ge_message graphError of None \<Rightarrow> ''undefined'' | Some m \<Rightarrow> m))
            (mapGraphErrorCode (case ge_code graphError of None \<Rightarrow> [] | Some c \<Rightarrow> c))
            ((''graphCode'', (case ge_code graphError of None \<Rightarrow> JUndefined | Some c \<Rightarrow> JStr c))
               # (if truthy (ge_innerError graphError)
                  then [(''innerError'', ge_innerError graphError)] else []))
      | None \<Rightarrow>
          (case response_status error of
             Some status \<Rightarrow>
               if status = 401 \<or> status = 403
               then newMCPErrorD ''Authentication or authorization failed''
                      (if status = 401 then UNAUTHORIZED else FORBIDDEN)
                      [(''httpStatus'', JNum (Num (of_int status)))]
               else if status = 404
               then newMCPErrorD ''Resource not found'' NOT_FOUND
                      [(''httpStatus'', JNum (Num (of_int status)))]
               else if status = 429
               then newMCPErrorD ''Too many requests - rate limit exceeded'' RATE_LIMITED
                      [(''httpStatus'', JNum (Num (of_int status)))]
               else if status \<ge> 500
               then newMCPErrorD ''Microsoft Graph API server error'' GRAPH_API_ERROR
                      [(''httpStatus'', JNum (Num (of_int status)))]
               else network_or_generic error
           | None \<Rightarrow> network_or_generic error))"


section \<open>The retry engine (retry.ts)\<close>

text \<open>
  \<^verbatim>\<open>RetryOptions\<close> as the caller gives them (a key may be absent) and as the loop uses
  them after \<^verbatim>\<open>{ ...DEFAULT_RETRY_OPTIONS, ...options }\<close>. The number of retries is an
  integer, the delays are rationals.
\<close>

record RetryOptions =
  o_maxRetries :: "int option"
  o_baseDelay :: "rat option"
  o_maxDelay :: "rat option"
  o_useJitter :: "bool option"
  o_retryOnStatus :: "int list option"
  o_shouldRetry :: "(thrown \<Rightarrow> bool) option"

record RequiredRetryOptions =
  maxRetries :: int
  baseDelay :: rat
  maxDelay :: rat
  useJitter :: bool
  retryOnStatus :: "int list"
  shouldRetry :: "thrown \<Rightarrow> bool"

definition DEFAULT_RETRY_OPTIONS :: RequiredRetryOptions where
  "DEFAULT_RETRY_OPTIONS =
     \<lparr>maxRetries = 3, baseDelay = 1000, maxDelay = 30000, useJitter = True,
      retryOnStatus = [429, 500, 502, 503, 504], shouldRetry = (\<lambda>error. False)\<rparr>"

definition no_options :: RetryOptions where
  "no_options =
     \<lparr>o_maxRetries = None, o_baseDelay = None, o_maxDelay = None, o_useJitter = None,
      o_retryOnStatus = None, o_shouldRetry = None\<rparr>"

definition merge_options :: "RetryOptions \<Rightarrow> RequiredRetryOptions" where
  "merge_options options =
     \<lparr>maxRetries = (case o_maxRetries options of None \<Rightarrow> maxRetries DEFAULT_RETRY_OPTIONS | Some v \<Rightarrow> v),
      baseDelay = (case o_baseDelay options of None \<Rightarrow> baseDelay DEFAULT_RETRY_OPTIONS | Some v \<Rightarrow> v),
      maxDelay = (case o_maxDelay options of None \<Rightarrow> maxDelay DEFAULT_RETRY_OPTIONS | Some v \<Rightarrow> v),
      useJitter = (case o_useJitter options of None \<Rightarrow> useJitter DEFAULT_RETRY_OPTIONS | Some v \<Rightarrow> v),
      retryOnStatus =
        (case o_retryOnStatus options of None \<Rightarrow> retryOnStatus DEFAULT_RETRY_OPTIONS | Some v \<Rightarrow> v),
      shouldRetry =
        (case o_shouldRetry options of None \<Rightarrow> shouldRetry DEFAULT_RETRY_OPTIONS | Some v \<Rightarrow> v)\<rparr>"

text \<open>
  What the engine reads from outside, as functions of the state of the world \<open>'s\<close> in
  which it reads: \<^verbatim>\<open>Math.random()\<close> (a number from 0 up to, not including, 1),
  \<^verbatim>\<open>Date.now()\<close> in milliseconds, the parsing of a date
  (\<^verbatim>\<open>new Date(text).getTime()\<close>, \<open>None\<close> for NaN) and the printing of one
  (\<^verbatim>\<open>toISOString\<close>).
\<close>

record 's Env =
  mathRandom :: "'s \<Rightarrow> rat"
  dateNow :: "'s \<Rightarrow> int"
  dateParse :: "string \<Rightarrow> int option"
  toISOString :: "int \<Rightarrow> string"

text \<open>\<^verbatim>\<open>Math.pow(2, attempt)\<close> for an integer attempt.\<close>

definition pow2 :: "int \<Rightarrow> rat" where
  "pow2 k = (if 0 \<le> k then 2 ^ nat k else 1 / 2 ^ nat (- k))"

definition calculateDelay :: "int \<Rightarrow> rat \<Rightarrow> rat \<Rightarrow> bool \<Rightarrow> rat \<Rightarrow> rat" where
  "calculateDelay attempt baseDelay' maxDelay' useJitter' random =
     (let exponentialDelay = baseDelay' * pow2 attempt;
          jitter = (if useJitter' then (random - 1 / 2) * (1 / 2) * exponentialDelay else 0)
      in min (exponentialDelay + jitter) maxDelay')"

definition isRetryable :: "thrown \<Rightarrow> RequiredRetryOptions \<Rightarrow> bool" where
  "isRetryable error options =
     (if shouldRetry options error then True
      else if (case error of
                 ThrownMCP e \<Rightarrow> code e = RATE_LIMITED \<or> code e = TIMEOUT
               | _ \<Rightarrow> False) then True
      else case response_status error of
             Some status \<Rightarrow> status \<in> set (retryOnStatus options)
           | None \<Rightarrow>
               error_code error = Some ''ECONNRESET'' \<or> error_code error = Some ''ECONNREFUSED''
               \<or> error_code error = Some ''ETIMEDOUT'' \<or> error_code error = Some ''ENOTFOUND''
               \<or> error_code error = Some ''EAI_AGAIN'')"

text \<open>\<^verbatim>\<open>parseInt(text, 10)\<close>: leading white space, a sign, then the longest run of
  decimal digits; \<open>None\<close> stands for NaN.\<close>

definition isDigit :: "char \<Rightarrow> bool" where
  "isDigit c = (48 \<le> (of_char c :: nat) \<and> (of_char c :: nat) \<le> 57)"

definition digits_value :: "string \<Rightarrow> nat" where
  "digits_value ds = foldl (\<lambda>a c. 10 * a + (of_char c - 48)) 0 ds"

definition parseInt10 :: "string \<Rightarrow> int option" where
  "parseInt10 text =
     (let s = dropWhile isWhiteSpace text;
          negative = (s \<noteq> [] \<and> hd s = CHR ''-'');
          rest = (if s \<noteq> [] \<and> (hd s = CHR ''-'' \<or> hd s = CHR ''+'') then tl s else s);
          ds = takeWhile isDigit rest
      in if ds = [] then None
         else Some (if negative then - int (digits_value ds) else int (digits_value ds)))"

text \<open>\<^verbatim>\<open>retryAfter * 1000\<close> on a number.\<close>

fun times_1000 :: "jsnum \<Rightarrow> jsnum" where
  "times_1000 (Num q) = Num (q * 1000)"
| "times_1000 n = n"

definition getRetryAfterDelay :: "'s Env \<Rightarrow> 's \<Rightarrow> thrown \<Rightarrow> jsnum option" where
  "getRetryAfterDelay env s error =
     (let retryAfter = response_header error ''retry-after''
      in if \<not> truthy retryAfter then None
         else case retryAfter of
                JNum n \<Rightarrow> Some (times_1000 n)
              | JStr text \<Rightarrow>
                  (case parseInt10 text of
                     Some seconds \<Rightarrow> Some (Num (of_int seconds * 1000))
                   | None \<Rightarrow>
                       (case dateParse env text of
                          Some t \<Rightarrow> Some (Num (of_int (max 0 (t - dateNow env s))))
                        | None \<Rightarrow> None))
              | _ \<Rightarrow> None)"

text \<open>
  A run of the engine is observed through its outcome (the value returned or the
  classified error thrown), the final state of the world, and the trace of what it did:
  each call of the operation and each sleep, in order. The log line written to stderr
  is not modelled.
\<close>

datatype event = Invoke | Sleep jsnum

record ('a, 's) run =
  outcome :: "MCPError + 'a"
  world :: 's
  trace :: "event list"

text \<open>\<^verbatim>\<open>if (e instanceof MCPError) throw e; handleGraphError(e);\<close>\<close>

fun surface :: "thrown \<Rightarrow> MCPError" where
  "surface (ThrownMCP e) = e"
| "surface error = handleGraphError error"

text \<open>The delay chosen after a retryable failure.\<close>

definition next_delay :: "'s Env \<Rightarrow> 's \<Rightarrow> RequiredRetryOptions \<Rightarrow> int \<Rightarrow> thrown \<Rightarrow> jsnum" where
  "next_delay env s opts attempt error =
     (case getRetryAfterDelay env s error of
        Some retryAfterDelay \<Rightarrow> retryAfterDelay
      | None \<Rightarrow>
          Num (calculateDelay attempt (baseDelay opts) (maxDelay opts) (useJitter opts)
                 (mathRandom env s)))"

text \<open>The \<^verbatim>\<open>for\<close> loop from a given attempt on, with the code after the loop.\<close>

function retry_loop ::
  "('s \<Rightarrow> (thrown + 'a) \<times> 's) \<Rightarrow> RequiredRetryOptions \<Rightarrow> 's Env \<Rightarrow> int \<Rightarrow> thrown \<Rightarrow> 's
     \<Rightarrow> ('a, 's) run" where
  "retry_loop fn opts env attempt lastError s =
     (if attempt \<le> maxRetries opts then
        (case fn s of
           (Inr v, s') \<Rightarrow> \<lparr>outcome = Inr v, world = s', trace = [Invoke]\<rparr>
         | (Inl error, s') \<Rightarrow>
             if attempt = maxRetries opts
             then \<lparr>outcome = Inl (surface error), world = s', trace = [Invoke]\<rparr>
             else if \<not> isRetryable error opts
             then \<lparr>outcome = Inl (surface error), world = s', trace = [Invoke]\<rparr>
             else
               (let delay = next_delay env s' opts attempt error;
                    r = retry_loop fn opts env (attempt + 1) error s'
                in r\<lparr>trace := Invoke # Sleep delay # trace r\<rparr>))
      else \<lparr>outcome = Inl (surface lastError), world = s, trace = []\<rparr>)"
  by pat_completeness auto
termination
  by (relation "measure (\<lambda>(fn, opts, env, attempt, lastError, s). nat (maxRetries opts + 1 - attempt))")
     auto

declare retry_loop.simps [simp del]

definition retryWithBackoff ::
  "('s \<Rightarrow> (thrown + 'a) \<times> 's) \<Rightarrow> RetryOptions \<Rightarrow> 's Env \<Rightarrow> 's \<Rightarrow> ('a, 's) run" where
  "retryWithBackoff fn options env s =
     retry_loop fn (merge_options options) env 0 ThrownUndefined s"

text \<open>The number of calls of the operation and the sleeps of a run.\<close>

definition invocations :: "event list \<Rightarrow> nat" where
  "invocations tr = count_list tr Invoke"

fun sleeps :: "event list \<Rightarrow> jsnum list" where
  "sleeps [] = []"
| "sleeps (Invoke # tr) = sleeps tr"
| "sleeps (Sleep d # tr) = d # sleeps tr"


section \<open>The query builders (tools/*.ts)\<close>

subsection \<open>Requests and the remote service\<close>

text \<open>
  A request is the collection path given to \<^verbatim>\<open>client.api\<close> and the modifiers applied
  to it, in the order of application. The remote service is a parameter: it answers a
  request, given the requests made before, with a response or a failure. The state of
  the world of a builder is the log of the requests made so far; \<^verbatim>\<open>get()\<close> is the only
  network call.
\<close>

datatype Modifier = Top rat | FilterBy string | Select string | OrderBy jsval | Expand string

record Request =
  path :: string
  modifiers :: "Modifier list"

type_synonym GraphApi = "Request list \<Rightarrow> Request \<Rightarrow> thrown + jsval"

definition request_get ::
  "GraphApi \<Rightarrow> Request \<Rightarrow> Request list \<Rightarrow> (thrown + jsval) \<times> Request list" where
  "request_get api req reqs = (api reqs req, reqs @ [req])"

text \<open>The TypeError of a property read on \<^verbatim>\<open>undefined\<close> or \<^verbatim>\<open>null\<close>.\<close>

definition type_error :: "string \<Rightarrow> thrown" where
  "type_error m =
     ThrownRaw \<lparr>err_response = None, err_code = None, err_message = Some m,
               err_string = ''TypeError: '' @ m\<rparr>"

text \<open>\<^verbatim>\<open>response.value || []\<close>\<close>

fun value_or_empty :: "jsval \<Rightarrow> thrown + jsval" where
  "value_or_empty JUndefined = Inl (type_error ''Cannot read properties of undefined'')"
| "value_or_empty JNull = Inl (type_error ''Cannot read properties of null'')"
| "value_or_empty (JObj kvs) =
     Inr (case map_of kvs ''value'' of
            None \<Rightarrow> JArr []
          | Some v \<Rightarrow> if truthy v then v else JArr [])"
| "value_or_empty _ = Inr (JArr [])"

fun has_value_array :: "jsval \<Rightarrow> bool" where
  "has_value_array (JObj kvs) = (case map_of kvs ''value'' of Some (JArr xs) \<Rightarrow> True | _ \<Rightarrow> False)"
| "has_value_array _ = False"

fun is_object :: "jsval \<Rightarrow> bool" where
  "is_object (JObj kvs) = True"
| "is_object (JArr xs) = True"
| "is_object _ = False"

definition validateResponse :: "jsval \<Rightarrow> bool \<Rightarrow> MCPError + jsval" where
  "validateResponse response expectArray =
     (if \<not> truthy response \<or> \<not> is_object response
      then Inl (newMCPError ''Invalid response from Graph API'' INVALID_RESPONSE)
      else if expectArray \<and> \<not> has_value_array response
      then Inl (newMCPError ''Response does not contain expected value array'' INVALID_RESPONSE)
      else Inr response)"

text \<open>\<^verbatim>\<open>getDateOffset\<close> and \<^verbatim>\<open>formatODataDate\<close>: a date is its time value in
  milliseconds, which \<^verbatim>\<open>new Date\<close> truncates to an integer; the ISO text has no
  character that \<^verbatim>\<open>JSON.stringify\<close> would escape.\<close>

definition getDateOffset :: "int \<Rightarrow> rat \<Rightarrow> int" where
  "getDateOffset now days =
     (let t = of_int now - days * 24 * 60 * 60 * 1000
      in if 0 \<le> t then \<lfloor>t\<rfloor> else \<lceil>t\<rceil>)"

definition formatODataDate :: "'s Env \<Rightarrow> int \<Rightarrow> string" where
  "formatODataDate env date = [CHR 0x22] @ toISOString env date @ [CHR 0x22]"

subsection \<open>The shapes the methods share\<close>

definition bindE :: "'e + 'a \<Rightarrow> ('a \<Rightarrow> 'e + 'b) \<Rightarrow> 'e + 'b" where
  "bindE m f = (case m of Inl e \<Rightarrow> Inl e | Inr x \<Rightarrow> f x)"

text \<open>A parameter with a default value: \<^verbatim>\<open>top = DEFAULT_TOP_MEDIUM\<close>.\<close>

definition default_arg :: "jsval \<Rightarrow> rat \<Rightarrow> jsval" where
  "default_arg v d = (if v = JUndefined then JNum (Num d) else v)"

text \<open>\<^verbatim>\<open>Array.prototype.join\<close>\<close>

fun join :: "string \<Rightarrow> string list \<Rightarrow> string" where
  "join sep [] = []"
| "join sep [x] = x"
| "join sep (x # y # ys) = x @ sep @ join sep (y # ys)"

text \<open>\<^verbatim>\<open>try { ... } catch (error) { handleGraphError(error); }\<close>: whatever the body
  throws, a validation error included, goes through \<^verbatim>\<open>handleGraphError\<close>.\<close>

definition try_catch :: "('s \<Rightarrow> (thrown + 'a) \<times> 's) \<Rightarrow> 's \<Rightarrow> (thrown + 'a) \<times> 's" where
  "try_catch body s =
     (case body s of
        (Inl error, s') \<Rightarrow> (Inl (ThrownMCP (handleGraphError error)), s')
      | (Inr v, s') \<Rightarrow> (Inr v, s'))"

text \<open>The bodies: validate and build the request, \<^verbatim>\<open>get()\<close>, then return
  \<^verbatim>\<open>response.value || []\<close>, the same after \<^verbatim>\<open>validateResponse(response)\<close>, or the
  response itself.\<close>

definition fetch_list ::
  "GraphApi \<Rightarrow> (Request list \<Rightarrow> MCPError + Request) \<Rightarrow> Request list
     \<Rightarrow> (thrown + jsval) \<times> Request list" where
  "fetch_list api build reqs =
     (case build reqs of
        Inl e \<Rightarrow> (Inl (ThrownMCP e), reqs)
      | Inr req \<Rightarrow>
          (case request_get api req reqs of
             (Inl error, reqs') \<Rightarrow> (Inl error, reqs')
           | (Inr response, reqs') \<Rightarrow> (value_or_empty response, reqs')))"

definition fetch_validated_list ::
  "GraphApi \<Rightarrow> (Request list \<Rightarrow> MCPError + Request) \<Rightarrow> Request list
     \<Rightarrow> (thrown + jsval) \<times> Request list" where
  "fetch_validated_list api build reqs =
     (case build reqs of
        Inl e \<Rightarrow> (Inl (ThrownMCP e), reqs)
      | Inr req \<Rightarrow>
          (case request_get api req reqs of
             (Inl error, reqs') \<Rightarrow> (Inl error, reqs')
           | (Inr response, reqs') \<Rightarrow>
               (case validateResponse response True of
                  Inl e \<Rightarrow> (Inl (ThrownMCP e), reqs')
                | Inr r \<Rightarrow> (value_or_empty response, reqs'))))"

definition fetch_object ::
  "GraphApi \<Rightarrow> (Request list \<Rightarrow> MCPError + Request) \<Rightarrow> Request list
     \<Rightarrow> (thrown + jsval) \<times> Request list" where
  "fetch_object api build reqs =
     (case build reqs of
        Inl e \<Rightarrow> (Inl (ThrownMCP e), reqs)
      | Inr req \<Rightarrow> request_get api req reqs)"

record QueryOptions =
  opt_top :: jsval
  opt_filter :: jsval
  opt_select :: jsval
  opt_orderBy :: jsval

text \<open>The request of \<^verbatim>\<open>listUsers\<close>, \<^verbatim>\<open>listGroups\<close>, \<^verbatim>\<open>listApplications\<close>,
  \<^verbatim>\<open>listServicePrincipals\<close> and \<^verbatim>\<open>listDevices\<close>, which differ in the path only.\<close>

definition list_request :: "string \<Rightarrow> QueryOptions \<Rightarrow> MCPError + Request" where
  "list_request p options =
     bindE (validateTop (opt_top options) DEFAULT_TOP_LARGE MAX_TOP) (\<lambda>top'.
     bindE (validateFilter (opt_filter options)) (\<lambda>filter.
     bindE (validateStringArray (opt_select options) ''select'') (\<lambda>select.
       Inr \<lparr>path = p,
            modifiers =
              (if top' \<noteq> 0 then [Top top'] else [])
              @ (case filter of None \<Rightarrow> [] | Some f \<Rightarrow> if f \<noteq> [] then [FilterBy f] else [])
              @ (case select of
                   None \<Rightarrow> []
                 | Some sel \<Rightarrow> if length sel > 0 then [Select (join '','' sel)] else [])
              @ (if truthy (opt_orderBy options) then [OrderBy (opt_orderBy options)] else [])\<rparr>)))"

text \<open>The request of the \<^verbatim>\<open>get...ById\<close> methods.\<close>

definition by_id_request :: "string \<Rightarrow> string \<Rightarrow> jsval \<Rightarrow> jsval \<Rightarrow> MCPError + Request" where
  "by_id_request pathBefore fieldName ident select =
     bindE (validateString ident fieldName False) (\<lambda>validatedId.
     bindE (validateStringArray select ''select'') (\<lambda>validatedSelect.
       Inr \<lparr>path = pathBefore @ validatedId,
            modifiers =
              (case validatedSelect of
                 None \<Rightarrow> []
               | Some sel \<Rightarrow> if length sel > 0 then [Select (join '','' sel)] else [])\<rparr>))"

text \<open>The request of the relationship fetchers: a sub-path under a validated
  identifier, with a page size.\<close>

definition relationship_request ::
  "string \<Rightarrow> string \<Rightarrow> string \<Rightarrow> rat \<Rightarrow> jsval \<Rightarrow> jsval \<Rightarrow> MCPError + Request" where
  "relationship_request pathBefore pathAfter fieldName defaultTop ident top' =
     bindE (validateString ident fieldName False) (\<lambda>validatedId.
     bindE (validateTop top' defaultTop MAX_TOP) (\<lambda>validatedTop.
       Inr \<lparr>path = pathBefore @ validatedId @ pathAfter, modifiers = [Top validatedTop]\<rparr>))"

text \<open>\<^verbatim>\<open>startswith(field,'term')\<close> and the filter of a search over several fields.\<close>

definition startswith :: "string \<Rightarrow> string \<Rightarrow> string" where
  "startswith field term = ''startswith('' @ field @ '','' @ [CHR 0x27] @ term @ [CHR 0x27] @ '')''"

definition search_request ::
  "string \<Rightarrow> string list \<Rightarrow> jsval \<Rightarrow> jsval \<Rightarrow> MCPError + Request" where
  "search_request p fieldNames searchTerm top' =
     bindE (validateString searchTerm ''searchTerm'' False) (\<lambda>validatedSearchTerm.
     bindE (validateTop top' DEFAULT_TOP_SMALL MAX_TOP) (\<lambda>validatedTop.
     bindE (escapeODataString (JStr validatedSearchTerm)) (\<lambda>escapedTerm.
       Inr \<lparr>path = p,
            modifiers =
              [FilterBy (join '' or '' (map (\<lambda>f. startswith f escapedTerm) fieldNames)),
               Top validatedTop]\<rparr>)))"

text \<open>The request of the fetchers that validate a page size only; \<open>pre\<close> holds the
  modifiers applied before \<^verbatim>\<open>top\<close>.\<close>

definition top_request :: "string \<Rightarrow> Modifier list \<Rightarrow> rat \<Rightarrow> jsval \<Rightarrow> MCPError + Request" where
  "top_request p pre defaultTop top' =
     bindE (validateTop top' defaultTop MAX_TOP) (\<lambda>validatedTop.
       Inr \<lparr>path = p, modifiers = pre @ [Top validatedTop]\<rparr>)"


subsection \<open>The methods\<close>

text \<open>
  Every method is \<^verbatim>\<open>retryWithBackoff(async () => { try { ... } catch (error) {
  handleGraphError(error); } })\<close> with the default retry options. For each method the
  request it validates and builds comes first, then the method. An argument that the
  caller leaves out is \<open>JUndefined\<close>.
\<close>

type_synonym 'a Method = "Request list \<Rightarrow> ('a, Request list) run"

definition startDateStr ::
  "Request list Env \<Rightarrow> Request list \<Rightarrow> rat \<Rightarrow> string" where
  "startDateStr env reqs validatedDays =
     formatODataDate env (getDateOffset (dateNow env reqs) validatedDays)"


paragraph \<open>users.ts\<close>

definition listUsers_request :: "QueryOptions \<Rightarrow> MCPError + Request" where
  "listUsers_request options =
     list_request ''/users'' options"

definition listUsers ::
  "GraphApi \<Rightarrow> Request list Env \<Rightarrow> QueryOptions \<Rightarrow> jsval Method" where
  "listUsers api env options =
     retryWithBackoff (try_catch (fetch_validated_list api (\<lambda>reqs. listUsers_request options)))
       no_options env"

definition getUserById_request :: "jsval \<Rightarrow> jsval \<Rightarrow> MCPError + Request" where
  "getUserById_request userId select =
     by_id_request ''/users/'' ''userId'' userId select"

definition getUserById ::
  "GraphApi \<Rightarrow> Request list Env \<Rightarrow> jsval \<Rightarrow> jsval \<Rightarrow> jsval Method" where
  "getUserById api env userId select =
     retryWithBackoff (try_catch (fetch_object api (\<lambda>reqs. getUserById_request userId select)))
       no_options env"

definition getUserByPrincipalName ::
  "GraphApi \<Rightarrow> Request list Env \<Rightarrow> jsval \<Rightarrow> jsval \<Rightarrow> jsval Method" where
  "getUserByPrincipalName api env upn select = getUserById api env upn select"

definition searchUsers_request :: "jsval \<Rightarrow> jsval \<Rightarrow> MCPError + Request" where
  "searchUsers_request searchTerm top' =
     search_request ''/users'' [''displayName'', ''givenName'', ''surname'', ''mail'', ''userPrincipalName'']
       searchTerm (default_arg top' DEFAULT_TOP_SMALL)"

definition searchUsers ::
  "GraphApi \<Rightarrow> Request list Env \<Rightarrow> jsval \<Rightarrow> jsval \<Rightarrow> jsval Method" where
  "searchUsers api env searchTerm top' =
     retryWithBackoff (try_catch (fetch_validated_list api (\<lambda>reqs. searchUsers_request searchTerm top')))
       no_options env"

definition getInactiveUsers_request ::
  "Request list Env \<Rightarrow> Request list \<Rightarrow> jsval \<Rightarrow> jsval \<Rightarrow> MCPError + Request" where
  "getInactiveUsers_request env reqs days top' =
     bindE (validateDays (default_arg days 30) DEFAULT_DAYS) (\<lambda>validatedDays.
     bindE (validateTop (default_arg top' DEFAULT_TOP_LARGE) DEFAULT_TOP_LARGE MAX_TOP) (\<lambda>validatedTop.
       Inr \<lparr>path = ''/users'',
            modifiers =
              [FilterBy (''signInActivity/lastSignInDateTime le '' @ startDateStr env reqs validatedDays),
               Select ''id,displayName,mail,userPrincipalName,signInActivity'',
               Top validatedTop]\<rparr>))"

definition getInactiveUsers ::
  "GraphApi \<Rightarrow> Request list Env \<Rightarrow> jsval \<Rightarrow> jsval \<Rightarrow> jsval Method" where
  "getInactiveUsers api env days top' =
     retryWithBackoff (try_catch (fetch_validated_list api (\<lambda>reqs. getInactiveUsers_request env reqs days top')))
       no_options env"

definition getUsersWithMFAStatus_request :: "jsval \<Rightarrow> MCPError + Request" where
  "getUsersWithMFAStatus_request top' =
     top_request ''/users''
       [Select ''id,displayName,mail,userPrincipalName'',
        Expand ''authentication($select=id,methodType,displayName)''] DEFAULT_TOP_LARGE (default_arg top' DEFAULT_TOP_LARGE)"

definition getUsersWithMFAStatus ::
  "GraphApi \<Rightarrow> Request list Env \<Rightarrow> jsval \<Rightarrow> jsval Method" where
  "getUsersWithMFAStatus api env top' =
     retryWithBackoff (try_catch (fetch_validated_list api (\<lambda>reqs. getUsersWithMFAStatus_request top')))
       no_options env"

definition getUserSignIns_request ::
  "Request list Env \<Rightarrow> Request list \<Rightarrow> jsval \<Rightarrow> jsval \<Rightarrow> MCPError + Request" where
  "getUserSignIns_request env reqs userId days =
     bindE (validateString userId ''userId'' False) (\<lambda>validatedUserId.
     bindE (validateDays (default_arg days 30) DEFAULT_DAYS) (\<lambda>validatedDays.
       Inr \<lparr>path = ''/auditLogs/signIns'',
            modifiers =
              [FilterBy (''userId eq '' @ [CHR 0x27] @ validatedUserId @ [CHR 0x27]
                         @ '' and createdDateTime ge '' @ startDateStr env reqs validatedDays),
               OrderBy (JStr ''createdDateTime desc'')]\<rparr>))"

definition getUserSignIns ::
  "GraphApi \<Rightarrow> Request list Env \<Rightarrow> jsval \<Rightarrow> jsval \<Rightarrow> jsval Method" where
  "getUserSignIns api env userId days =
     retryWithBackoff (try_catch (fetch_validated_list api (\<lambda>reqs. getUserSignIns_request env reqs userId days)))
       no_options env"


paragraph \<open>groups.ts\<close>

definition listGroups_request :: "QueryOptions \<Rightarrow> MCPError + Request" where
  "listGroups_request options =
     list_request ''/groups'' options"

definition listGroups ::
  "GraphApi \<Rightarrow> Request list Env \<Rightarrow> QueryOptions \<Rightarrow> jsval Method" where
  "listGroups api env options =
     retryWithBackoff (try_catch (fetch_list api (\<lambda>reqs. listGroups_request options)))
       no_options env"

definition getGroupById_request ::
  "jsval \<Rightarrow> jsval \<Rightarrow> MCPError + Request" where
  "getGroupById_request groupId select =
     by_id_request ''/groups/'' ''groupId'' groupId select"

definition getGroupById ::
  "GraphApi \<Rightarrow> Request list Env \<Rightarrow> jsval \<Rightarrow> jsval \<Rightarrow> jsval Method" where
  "getGroupById api env groupId select =
     retryWithBackoff (try_catch (fetch_object api (\<lambda>reqs. getGroupById_request groupId select)))
       no_options env"

definition getGroupMembers_request ::
  "jsval \<Rightarrow> jsval \<Rightarrow> MCPError + Request" where
  "getGroupMembers_request groupId top' =
     relationship_request ''/groups/'' ''/members'' ''groupId'' DEFAULT_TOP_MEDIUM groupId (default_arg top' DEFAULT_TOP_MEDIUM)"

definition getGroupMembers ::
  "GraphApi \<Rightarrow> Request list Env \<Rightarrow> jsval \<Rightarrow> jsval \<Rightarrow> jsval Method" where
  "getGroupMembers api env groupId top' =
     retryWithBackoff (try_catch (fetch_list api (\<lambda>reqs. getGroupMembers_request groupId top')))
       no_options env"

definition getGroupOwners_request ::
  "jsval \<Rightarrow> jsval \<Rightarrow> MCPError + Request" where
  "getGroupOwners_request groupId top' =
     relationship_request ''/groups/'' ''/owners'' ''groupId'' DEFAULT_TOP_MEDIUM groupId (default_arg top' DEFAULT_TOP_MEDIUM)"

definition getGroupOwners ::
  "GraphApi \<Rightarrow> Request list Env \<Rightarrow> jsval \<Rightarrow> jsval \<Rightarrow> jsval Method" where
  "getGroupOwners api env groupId top' =
     retryWithBackoff (try_catch (fetch_list api (\<lambda>reqs. getGroupOwners_request groupId top')))
       no_options env"

definition getUserGroups_request ::
  "jsval \<Rightarrow> jsval \<Rightarrow> MCPError + Request" where
  "getUserGroups_request userId top' =
     relationship_request ''/users/'' ''/memberOf'' ''userId'' DEFAULT_TOP_MEDIUM userId (default_arg top' DEFAULT_TOP_MEDIUM)"

definition getUserGroups ::
  "GraphApi \<Rightarrow> Request list Env \<Rightarrow> jsval \<Rightarrow> jsval \<Rightarrow> jsval Method" where
  "getUserGroups api env userId top' =
     retryWithBackoff (try_catch (fetch_list api (\<lambda>reqs. getUserGroups_request userId top')))
       no_options env"

definition searchGroups_request ::
  "jsval \<Rightarrow> jsval \<Rightarrow> MCPError + Request" where
  "searchGroups_request searchTerm top' =
     search_request ''/groups'' [''displayName'', ''mail'']
       searchTerm (default_arg top' DEFAULT_TOP_SMALL)"

definition searchGroups ::
  "GraphApi \<Rightarrow> Request list Env \<Rightarrow> jsval \<Rightarrow> jsval \<Rightarrow> jsval Method" where
  "searchGroups api env searchTerm top' =
     retryWithBackoff (try_catch (fetch_list api (\<lambda>reqs. searchGroups_request searchTerm top')))
       no_options env"

definition getGroupTransitiveMembers_request ::
  "jsval \<Rightarrow> jsval \<Rightarrow> MCPError + Request" where
  "getGroupTransitiveMembers_request groupId top' =
     relationship_request ''/groups/'' ''/transitiveMembers'' ''groupId'' DEFAULT_TOP_LARGE groupId (default_arg top' DEFAULT_TOP_LARGE)"

definition getGroupTransitiveMembers ::
  "GraphApi \<Rightarrow> Request list Env \<Rightarrow> jsval \<Rightarrow> jsval \<Rightarrow> jsval Method" where
  "getGroupTransitiveMembers api env groupId top' =
     retryWithBackoff (try_catch (fetch_list api (\<lambda>reqs. getGroupTransitiveMembers_request groupId top')))
       no_options env"


paragraph \<open>applications.ts\<close>

definition listApplications_request :: "QueryOptions \<Rightarrow> MCPError + Request" where
  "listApplications_request options =
     list_request ''/applications'' options"

definition listApplications ::
  "GraphApi \<Rightarrow> Request list Env \<Rightarrow> QueryOptions \<Rightarrow> jsval Method" where
  "listApplications api env options =
     retryWithBackoff (try_catch (fetch_list api (\<lambda>reqs. listApplications_request options)))
       no_options env"

definition getApplicationById_request ::
  "jsval \<Rightarrow> jsval \<Rightarrow> MCPError + Request" where
  "getApplicationById_request appId select =
     by_id_request ''/applications/'' ''appId'' appId select"

definition getApplicationById ::
  "GraphApi \<Rightarrow> Request list Env \<Rightarrow> jsval \<Rightarrow> jsval \<Rightarrow> jsval Method" where
  "getApplicationById api env appId select =
     retryWithBackoff (try_catch (fetch_object api (\<lambda>reqs. getApplicationById_request appId select)))
       no_options env"

definition listServicePrincipals_request :: "QueryOptions \<Rightarrow> MCPError + Request" where
  "listServicePrincipals_request options =
     list_request ''/servicePrincipals'' options"

definition listServicePrincipals ::
  "GraphApi \<Rightarrow> Request list Env \<Rightarrow> QueryOptions \<Rightarrow> jsval Method" where
  "listServicePrincipals api env options =
     retryWithBackoff (try_catch (fetch_list api (\<lambda>reqs. listServicePrincipals_request options)))
       no_options env"

definition getServicePrincipalById_request ::
  "jsval \<Rightarrow> jsval \<Rightarrow> MCPError + Request" where
  "getServicePrincipalById_request spId select =
     by_id_request ''/servicePrincipals/'' ''spId'' spId select"

definition getServicePrincipalById ::
  "GraphApi \<Rightarrow> Request list Env \<Rightarrow> jsval \<Rightarrow> jsval \<Rightarrow> jsval Method" where
  "getServicePrincipalById api env spId select =
     retryWithBackoff (try_catch (fetch_object api (\<lambda>reqs. getServicePrincipalById_request spId select)))
       no_options env"

definition getApplicationOwners_request ::
  "jsval \<Rightarrow> jsval \<Rightarrow> MCPError + Request" where
  "getApplicationOwners_request appId top' =
     relationship_request ''/applications/'' ''/owners'' ''appId'' DEFAULT_TOP_MEDIUM appId (default_arg top' DEFAULT_TOP_MEDIUM)"

definition getApplicationOwners ::
  "GraphApi \<Rightarrow> Request list Env \<Rightarrow> jsval \<Rightarrow> jsval \<Rightarrow> jsval Method" where
  "getApplicationOwners api env appId top' =
     retryWithBackoff (try_catch (fetch_list api (\<lambda>reqs. getApplicationOwners_request appId top')))
       no_options env"

definition searchApplications_request ::
  "jsval \<Rightarrow> jsval \<Rightarrow> MCPError + Request" where
  "searchApplications_request searchTerm top' =
     search_request ''/applications'' [''displayName'', ''appId'']
       searchTerm (default_arg top' DEFAULT_TOP_SMALL)"

definition searchApplications ::
  "GraphApi \<Rightarrow> Request list Env \<Rightarrow> jsval \<Rightarrow> jsval \<Rightarrow> jsval Method" where
  "searchApplications api env searchTerm top' =
     retryWithBackoff (try_catch (fetch_list api (\<lambda>reqs. searchApplications_request searchTerm top')))
       no_options env"

definition getApplicationPermissions_request :: "jsval \<Rightarrow> MCPError + Request" where
  "getApplicationPermissions_request appId =
     bindE (validateString appId ''appId'' False) (\<lambda>validatedAppId.
       Inr \<lparr>path = ''/applications/'' @ validatedAppId,
            modifiers =
              [Select ''id,displayName,appId,requiredResourceAccess,api,oauth2PermissionScopes'']\<rparr>)"

definition getApplicationPermissions ::
  "GraphApi \<Rightarrow> Request list Env \<Rightarrow> jsval \<Rightarrow> jsval Method" where
  "getApplicationPermissions api env appId =
     retryWithBackoff (try_catch (fetch_object api (\<lambda>reqs. getApplicationPermissions_request appId)))
       no_options env"


paragraph \<open>devices.ts\<close>

definition listDevices_request :: "QueryOptions \<Rightarrow> MCPError + Request" where
  "listDevices_request options =
     list_request ''/devices'' options"

definition listDevices ::
  "GraphApi \<Rightarrow> Request list Env \<Rightarrow> QueryOptions \<Rightarrow> jsval Method" where
  "listDevices api env options =
     retryWithBackoff (try_catch (fetch_list api (\<lambda>reqs. listDevices_request options)))
       no_options env"

definition getDeviceById_request ::
  "jsval \<Rightarrow> jsval \<Rightarrow> MCPError + Request" where
  "getDeviceById_request deviceId select =
     by_id_request ''/devices/'' ''deviceId'' deviceId select"

definition getDeviceById ::
  "GraphApi \<Rightarrow> Request list Env \<Rightarrow> jsval \<Rightarrow> jsval \<Rightarrow> jsval Method" where
  "getDeviceById api env deviceId select =
     retryWithBackoff (try_catch (fetch_object api (\<lambda>reqs. getDeviceById_request deviceId select)))
       no_options env"

definition getRegisteredOwners_request ::
  "jsval \<Rightarrow> jsval \<Rightarrow> MCPError + Request" where
  "getRegisteredOwners_request deviceId top' =
     relationship_request ''/devices/'' ''/registeredOwners'' ''deviceId'' DEFAULT_TOP_MEDIUM deviceId (default_arg top' DEFAULT_TOP_MEDIUM)"

definition getRegisteredOwners ::
  "GraphApi \<Rightarrow> Request list Env \<Rightarrow> jsval \<Rightarrow> jsval \<Rightarrow> jsval Method" where
  "getRegisteredOwners api env deviceId top' =
     retryWithBackoff (try_catch (fetch_list api (\<lambda>reqs. getRegisteredOwners_request deviceId top')))
       no_options env"

definition getRegisteredUsers_request ::
  "jsval \<Rightarrow> jsval \<Rightarrow> MCPError + Request" where
  "getRegisteredUsers_request deviceId top' =
     relationship_request ''/devices/'' ''/registeredUsers'' ''deviceId'' DEFAULT_TOP_MEDIUM deviceId (default_arg top' DEFAULT_TOP_MEDIUM)"

definition getRegisteredUsers ::
  "GraphApi \<Rightarrow> Request list Env \<Rightarrow> jsval \<Rightarrow> jsval \<Rightarrow> jsval Method" where
  "getRegisteredUsers api env deviceId top' =
     retryWithBackoff (try_catch (fetch_list api (\<lambda>reqs. getRegisteredUsers_request deviceId top')))
       no_options env"

definition getUserDevices_request ::
  "jsval \<Rightarrow> jsval \<Rightarrow> MCPError + Request" where
  "getUserDevices_request userId top' =
     relationship_request ''/users/'' ''/ownedDevices'' ''userId'' DEFAULT_TOP_MEDIUM userId (default_arg top' DEFAULT_TOP_MEDIUM)"

definition getUserDevices ::
  "GraphApi \<Rightarrow> Request list Env \<Rightarrow> jsval \<Rightarrow> jsval \<Rightarrow> jsval Method" where
  "getUserDevices api env userId top' =
     retryWithBackoff (try_catch (fetch_list api (\<lambda>reqs. getUserDevices_request userId top')))
       no_options env"

definition searchDevices_request ::
  "jsval \<Rightarrow> jsval \<Rightarrow> MCPError + Request" where
  "searchDevices_request searchTerm top' =
     search_request ''/devices'' [''displayName'', ''deviceId'', ''operatingSystem'']
       searchTerm (default_arg top' DEFAULT_TOP_SMALL)"

definition searchDevices ::
  "GraphApi \<Rightarrow> Request list Env \<Rightarrow> jsval \<Rightarrow> jsval \<Rightarrow> jsval Method" where
  "searchDevices api env searchTerm top' =
     retryWithBackoff (try_catch (fetch_list api (\<lambda>reqs. searchDevices_request searchTerm top')))
       no_options env"

definition getInactiveDevices_request ::
  "Request list Env \<Rightarrow> Request list \<Rightarrow> jsval \<Rightarrow> jsval \<Rightarrow> MCPError + Request" where
  "getInactiveDevices_request env reqs days top' =
     bindE (validateDays (default_arg days 90) DEFAULT_DAYS) (\<lambda>validatedDays.
     bindE (validateTop (default_arg top' DEFAULT_TOP_LARGE) DEFAULT_TOP_LARGE MAX_TOP) (\<lambda>validatedTop.
       Inr \<lparr>path = ''/devices'',
            modifiers =
              [FilterBy (''approximateLastSignInDateTime le '' @ startDateStr env reqs validatedDays),
               Select ''id,displayName,deviceId,operatingSystem,operatingSystemVersion,approximateLastSignInDateTime'',
               Top validatedTop]\<rparr>))"

definition getInactiveDevices ::
  "GraphApi \<Rightarrow> Request list Env \<Rightarrow> jsval \<Rightarrow> jsval \<Rightarrow> jsval Method" where
  "getInactiveDevices api env days top' =
     retryWithBackoff (try_catch (fetch_list api (\<lambda>reqs. getInactiveDevices_request env reqs days top')))
       no_options env"


paragraph \<open>reports.ts\<close>

definition getMFASummary_request :: "MCPError + Request" where
  "getMFASummary_request = Inr \<lparr>path = ''/reports/authenticationMethods'', modifiers = []\<rparr>"

definition getMFASummary ::
  "GraphApi \<Rightarrow> Request list Env \<Rightarrow> jsval Method" where
  "getMFASummary api env =
     retryWithBackoff (try_catch (fetch_object api (\<lambda>reqs. getMFASummary_request)))
       no_options env"

definition getUserRegistrationDetails_request :: "jsval \<Rightarrow> MCPError + Request" where
  "getUserRegistrationDetails_request top' =
     top_request ''/reports/credentialUserRegistrationDetails''
       [] DEFAULT_TOP_LARGE (default_arg top' DEFAULT_TOP_LARGE)"

definition getUserRegistrationDetails ::
  "GraphApi \<Rightarrow> Request list Env \<Rightarrow> jsval \<Rightarrow> jsval Method" where
  "getUserRegistrationDetails api env top' =
     retryWithBackoff (try_catch (fetch_list api (\<lambda>reqs. getUserRegistrationDetails_request top')))
       no_options env"

definition getUserAuthMethodsSummary_request :: "jsval \<Rightarrow> MCPError + Request" where
  "getUserAuthMethodsSummary_request top' =
     top_request ''/reports/authenticationMethodsUserRegistrationDetails''
       [] DEFAULT_TOP_LARGE (default_arg top' DEFAULT_TOP_LARGE)"

definition getUserAuthMethodsSummary ::
  "GraphApi \<Rightarrow> Request list Env \<Rightarrow> jsval \<Rightarrow> jsval Method" where
  "getUserAuthMethodsSummary api env top' =
     retryWithBackoff (try_catch (fetch_list api (\<lambda>reqs. getUserAuthMethodsSummary_request top')))
       no_options env"

definition getSignInsReport_request ::
  "Request list Env \<Rightarrow> Request list \<Rightarrow> jsval \<Rightarrow> jsval \<Rightarrow> MCPError + Request" where
  "getSignInsReport_request env reqs days top' =
     bindE (validateDays (default_arg days 30) DEFAULT_DAYS) (\<lambda>validatedDays.
     bindE (validateTop (default_arg top' DEFAULT_TOP_LARGE) DEFAULT_TOP_LARGE MAX_TOP) (\<lambda>validatedTop.
       Inr \<lparr>path = ''/auditLogs/signIns'',
            modifiers =
              [FilterBy (''createdDateTime ge '' @ startDateStr env reqs validatedDays),
               OrderBy (JStr ''createdDateTime desc''),
               Top validatedTop]\<rparr>))"

definition getSignInsReport ::
  "GraphApi \<Rightarrow> Request list Env \<Rightarrow> jsval \<Rightarrow> jsval \<Rightarrow> jsval Method" where
  "getSignInsReport api env days top' =
     retryWithBackoff (try_catch (fetch_list api (\<lambda>reqs. getSignInsReport_request env reqs days top')))
       no_options env"

definition getFailedSignInsReport_request ::
  "Request list Env \<Rightarrow> Request list \<Rightarrow> jsval \<Rightarrow> jsval \<Rightarrow> MCPError + Request" where
  "getFailedSignInsReport_request env reqs days top' =
     bindE (validateDays (default_arg days 30) DEFAULT_DAYS) (\<lambda>validatedDays.
     bindE (validateTop (default_arg top' DEFAULT_TOP_LARGE) DEFAULT_TOP_LARGE MAX_TOP) (\<lambda>validatedTop.
       Inr \<lparr>path = ''/auditLogs/signIns'',
            modifiers =
              [FilterBy (''createdDateTime ge '' @ startDateStr env reqs validatedDays
                         @ '' and status/errorCode ne 0''),
               OrderBy (JStr ''createdDateTime desc''),
               Top validatedTop]\<rparr>))"

definition getFailedSignInsReport ::
  "GraphApi \<Rightarrow> Request list Env \<Rightarrow> jsval \<Rightarrow> jsval \<Rightarrow> jsval Method" where
  "getFailedSignInsReport api env days top' =
     retryWithBackoff (try_catch (fetch_list api (\<lambda>reqs. getFailedSignInsReport_request env reqs days top')))
       no_options env"

definition getAuditLogs_request ::
  "Request list Env \<Rightarrow> Request list \<Rightarrow> jsval \<Rightarrow> jsval \<Rightarrow> jsval \<Rightarrow> MCPError + Request" where
  "getAuditLogs_request env reqs days top' category =
     bindE (validateDays (default_arg days 30) DEFAULT_DAYS) (\<lambda>validatedDays.
     bindE (validateTop (default_arg top' DEFAULT_TOP_LARGE) DEFAULT_TOP_LARGE MAX_TOP) (\<lambda>validatedTop.
     bindE (validateOptionalString category ''category'') (\<lambda>validatedCategory.
       Inr \<lparr>path = ''/auditLogs/directoryAudits'',
            modifiers =
              [FilterBy (''activityDateTime ge '' @ startDateStr env reqs validatedDays
                         @ (case validatedCategory of
                              None \<Rightarrow> []
                            | Some c \<Rightarrow>
                                if c \<noteq> []
                                then '' and category eq '' @ [CHR 0x27] @ replace_quotes c @ [CHR 0x27]
                                else [])),
               OrderBy (JStr ''activityDateTime desc''),
               Top validatedTop]\<rparr>)))"

definition getAuditLogs ::
  "GraphApi \<Rightarrow> Request list Env \<Rightarrow> jsval \<Rightarrow> jsval \<Rightarrow> jsval \<Rightarrow> jsval Method" where
  "getAuditLogs api env days top' category =
     retryWithBackoff (try_catch (fetch_list api (\<lambda>reqs. getAuditLogs_request env reqs days top' category)))
       no_options env"

definition getRiskyUsers_request :: "jsval \<Rightarrow> MCPError + Request" where
  "getRiskyUsers_request top' =
     top_request ''/identityProtection/riskyUsers''
       [] DEFAULT_TOP_MEDIUM (default_arg top' DEFAULT_TOP_MEDIUM)"

definition getRiskyUsers ::
  "GraphApi \<Rightarrow> Request list Env \<Rightarrow> jsval \<Rightarrow> jsval Method" where
  "getRiskyUsers api env top' =
     retryWithBackoff (try_catch (fetch_list api (\<lambda>reqs. getRiskyUsers_request top')))
       no_options env"

definition getRoleAssignments_request :: "jsval \<Rightarrow> MCPError + Request" where
  "getRoleAssignments_request top' =
     top_request ''/roleManagement/directory/roleAssignments''
       [Expand ''principal,roleDefinition''] DEFAULT_TOP_LARGE (default_arg top' DEFAULT_TOP_LARGE)"

definition getRoleAssignments ::
  "GraphApi \<Rightarrow> Request list Env \<Rightarrow> jsval \<Rightarrow> jsval Method" where
  "getRoleAssignments api env top' =
     retryWithBackoff (try_catch (fetch_list api (\<lambda>reqs. getRoleAssignments_request top')))
       no_options env"

definition getRoleDefinitions_request :: "jsval \<Rightarrow> MCPError + Request" where
  "getRoleDefinitions_request top' =
     top_request ''/roleManagement/directory/roleDefinitions''
       [] DEFAULT_TOP_LARGE (default_arg top' DEFAULT_TOP_LARGE)"

definition getRoleDefinitions ::
  "GraphApi \<Rightarrow> Request list Env \<Rightarrow> jsval \<Rightarrow> jsval Method" where
  "getRoleDefinitions api env top' =
     retryWithBackoff (try_catch (fetch_list api (\<lambda>reqs. getRoleDefinitions_request top')))
       no_options env"

definition getUsersWithAdminRoles_request :: "jsval \<Rightarrow> MCPError + Request" where
  "getUsersWithAdminRoles_request top' =
     top_request ''/roleManagement/directory/roleAssignments''
       [Expand (''principal($select=id,displayName,userPrincipalName,mail),''
                @ ''roleDefinition($select=id,displayName,description)'')] DEFAULT_TOP_LARGE (default_arg top' DEFAULT_TOP_LARGE)"

definition getUsersWithAdminRoles ::
  "GraphApi \<Rightarrow> Request list Env \<Rightarrow> jsval \<Rightarrow> jsval Method" where
  "getUsersWithAdminRoles api env top' =
     retryWithBackoff (try_catch (fetch_list api (\<lambda>reqs. getUsersWithAdminRoles_request top')))
       no_options env"

definition getLicenseUsageSummary_request :: "MCPError + Request" where
  "getLicenseUsageSummary_request = Inr \<lparr>path = ''/subscribedSkus'', modifiers = []\<rparr>"

definition getLicenseUsageSummary ::
  "GraphApi \<Rightarrow> Request list Env \<Rightarrow> jsval Method" where
  "getLicenseUsageSummary api env =
     retryWithBackoff (try_catch (fetch_list api (\<lambda>reqs. getLicenseUsageSummary_request)))
       no_options env"

definition getConditionalAccessPolicies_request :: "jsval \<Rightarrow> MCPError + Request" where
  "getConditionalAccessPolicies_request top' =
     top_request ''/identity/conditionalAccess/policies''
       [] DEFAULT_TOP_LARGE (default_arg top' DEFAULT_TOP_LARGE)"

definition getConditionalAccessPolicies ::
  "GraphApi \<Rightarrow> Request list Env \<Rightarrow> jsval \<Rightarrow> jsval Method" where
  "getConditionalAccessPolicies api env top' =
     retryWithBackoff (try_catch (fetch_list api (\<lambda>reqs. getConditionalAccessPolicies_request top')))
       no_options env"


subsection \<open>The list-shaped methods as one family\<close>

text \<open>
  The methods that return \<^verbatim>\<open>response.value || []\<close>, each with its arguments, so that a
  statement can range over all of them: what a call runs, the request it validates and
  builds, and whether its body calls \<^verbatim>\<open>validateResponse\<close> before unwrapping (the five
  methods of \<^verbatim>\<open>UserTools\<close> do, no other does).
\<close>

datatype ListCall =
    ListUsers QueryOptions
  | SearchUsers jsval jsval
  | GetInactiveUsers jsval jsval
  | GetUsersWithMFAStatus jsval
  | GetUserSignIns jsval jsval
  | ListGroups QueryOptions
  | GetGroupMembers jsval jsval
  | GetGroupOwners jsval jsval
  | GetUserGroups jsval jsval
  | SearchGroups jsval jsval
  | GetGroupTransitiveMembers jsval jsval
  | ListApplications QueryOptions
  | ListServicePrincipals QueryOptions
  | GetApplicationOwners jsval jsval
  | SearchApplications jsval jsval
  | ListDevices QueryOptions
  | GetRegisteredOwners jsval jsval
  | GetRegisteredUsers jsval jsval
  | GetUserDevices jsval jsval
  | SearchDevices jsval jsval
  | GetInactiveDevices jsval jsval
  | GetUserRegistrationDetails jsval
  | GetUserAuthMethodsSummary jsval
  | GetSignInsReport jsval jsval
  | GetFailedSignInsReport jsval jsval
  | GetAuditLogs jsval jsval jsval
  | GetRiskyUsers jsval
  | GetRoleAssignments jsval
  | GetRoleDefinitions jsval
  | GetUsersWithAdminRoles jsval
  | GetLicenseUsageSummary
  | GetConditionalAccessPolicies jsval

fun run_list_call :: "GraphApi \<Rightarrow> Request list Env \<Rightarrow> ListCall \<Rightarrow> jsval Method" where
  "run_list_call api env (ListUsers options) = listUsers api env options"
| "run_list_call api env (SearchUsers searchTerm top') = searchUsers api env searchTerm top'"
| "run_list_call api env (GetInactiveUsers days top') = getInactiveUsers api env days top'"
| "run_list_call api env (GetUsersWithMFAStatus top') = getUsersWithMFAStatus api env top'"
| "run_list_call api env (GetUserSignIns userId days) = getUserSignIns api env userId days"
| "run_list_call api env (ListGroups options) = listGroups api env options"
| "run_list_call api env (GetGroupMembers groupId top') = getGroupMembers api env groupId top'"
| "run_list_call api env (GetGroupOwners groupId top') = getGroupOwners api env groupId top'"
| "run_list_call api env (GetUserGroups userId top') = getUserGroups api env userId top'"
| "run_list_call api env (SearchGroups searchTerm top') = searchGroups api env searchTerm top'"
| "run_list_call api env (GetGroupTransitiveMembers groupId top') = getGroupTransitiveMembers api env groupId top'"
| "run_list_call api env (ListApplications options) = listApplications api env options"
| "run_list_call api env (ListServicePrincipals options) = listServicePrincipals api env options"
| "run_list_call api env (GetApplicationOwners appId top') = getApplicationOwners api env appId top'"
| "run_list_call api env (SearchApplications searchTerm top') = searchApplications api env searchTerm top'"
| "run_list_call api env (ListDevices options) = listDevices api env options"
| "run_list_call api env (GetRegisteredOwners deviceId top') = getRegisteredOwners api env deviceId top'"
| "run_list_call api env (GetRegisteredUsers deviceId top') = getRegisteredUsers api env deviceId top'"
| "run_list_call api env (GetUserDevices userId top') = getUserDevices api env userId top'"
| "run_list_call api env (SearchDevices searchTerm top') = searchDevices api env searchTerm top'"
| "run_list_call api env (GetInactiveDevices days top') = getInactiveDevices api env days top'"
| "run_list_call api env (GetUserRegistrationDetails top') = getUserRegistrationDetails api env top'"
| "run_list_call api env (GetUserAuthMethodsSummary top') = getUserAuthMethodsSummary api env top'"
| "run_list_call api env (GetSignInsReport days top') = getSignInsReport api env days top'"
| "run_list_call api env (GetFailedSignInsReport days top') = getFailedSignInsReport api env days top'"
| "run_list_call api env (GetAuditLogs days top' category) = getAuditLogs api env days top' category"
| "run_list_call api env (GetRiskyUsers top') = getRiskyUsers api env top'"
| "run_list_call api env (GetRoleAssignments top') = getRoleAssignments api env top'"
| "run_list_call api env (GetRoleDefinitions top') = getRoleDefinitions api env top'"
| "run_list_call api env (GetUsersWithAdminRoles top') = getUsersWithAdminRoles api env top'"
| "run_list_call api env GetLicenseUsageSummary = getLicenseUsageSummary api env"
| "run_list_call api env (GetConditionalAccessPolicies top') = getConditionalAccessPolicies api env top'"

fun list_call_request ::
  "Request list Env \<Rightarrow> Request list \<Rightarrow> ListCall \<Rightarrow> MCPError + Request" where
  "list_call_request env reqs (ListUsers options) = listUsers_request options"
| "list_call_request env reqs (SearchUsers searchTerm top') = searchUsers_request searchTerm top'"
| "list_call_request env reqs (GetInactiveUsers days top') = getInactiveUsers_request env reqs days top'"
| "list_call_request env reqs (GetUsersWithMFAStatus top') = getUsersWithMFAStatus_request top'"
| "list_call_request env reqs (GetUserSignIns userId days) = getUserSignIns_request env reqs userId days"
| "list_call_request env reqs (ListGroups options) = listGroups_request options"
| "list_call_request env reqs (GetGroupMembers groupId top') = getGroupMembers_request groupId top'"
| "list_call_request env reqs (GetGroupOwners groupId top') = getGroupOwners_request groupId top'"
| "list_call_request env reqs (GetUserGroups userId top') = getUserGroups_request userId top'"
| "list_call_request env reqs (SearchGroups searchTerm top') = searchGroups_request searchTerm top'"
| "list_call_request env reqs (GetGroupTransitiveMembers groupId top') = getGroupTransitiveMembers_request groupId top'"
| "list_call_request env reqs (ListApplications options) = listApplications_request options"
| "list_call_request env reqs (ListServicePrincipals options) = listServicePrincipals_request options"
| "list_call_request env reqs (GetApplicationOwners appId top') = getApplicationOwners_request appId top'"
| "list_call_request env reqs (SearchApplications searchTerm top') = searchApplications_request searchTerm top'"
| "list_call_request env reqs (ListDevices options) = listDevices_request options"
| "list_call_request env reqs (GetRegisteredOwners deviceId top') = getRegisteredOwners_request deviceId top'"
| "list_call_request env reqs (GetRegisteredUsers deviceId top') = getRegisteredUsers_request deviceId top'"
| "list_call_request env reqs (GetUserDevices userId top') = getUserDevices_request userId top'"
| "list_call_request env reqs (SearchDevices searchTerm top') = searchDevices_request searchTerm top'"
| "list_call_request env reqs (GetInactiveDevices days top') = getInactiveDevices_request env reqs days top'"
| "list_call_request env reqs (GetUserRegistrationDetails top') = getUserRegistrationDetails_request top'"
| "list_call_request env reqs (GetUserAuthMethodsSummary top') = getUserAuthMethodsSummary_request top'"
| "list_call_request env reqs (GetSignInsReport days top') = getSignInsReport_request env reqs days top'"
| "list_call_request env reqs (GetFailedSignInsReport days top') = getFailedSignInsReport_request env reqs days top'"
| "list_call_request env reqs (GetAuditLogs days top' category) = getAuditLogs_request env reqs days top' category"
| "list_call_request env reqs (GetRiskyUsers top') = getRiskyUsers_request top'"
| "list_call_request env reqs (GetRoleAssignments top') = getRoleAssignments_request top'"
| "list_call_request env reqs (GetRoleDefinitions top') = getRoleDefinitions_request top'"
| "list_call_request env reqs (GetUsersWithAdminRoles top') = getUsersWithAdminRoles_request top'"
| "list_call_request env reqs GetLicenseUsageSummary = getLicenseUsageSummary_request"
| "list_call_request env reqs (GetConditionalAccessPolicies top') = getConditionalAccessPolicies_request top'"

fun validates_response :: "ListCall \<Rightarrow> bool" where
  "validates_response (ListUsers options) = True"
| "validates_response (SearchUsers searchTerm top') = True"
| "validates_response (GetInactiveUsers days top') = True"
| "validates_response (GetUsersWithMFAStatus top') = True"
| "validates_response (GetUserSignIns userId days) = True"
| "validates_response _ = False"

section \<open>Notions used in the statements\<close>

text \<open>
  A string contains a token without regard to case when, at some position, the
  characters that follow agree with the token once both are put in lower case.
\<close>

definition contains_ignoring_case :: "string \<Rightarrow> string \<Rightarrow> bool" where
  "contains_ignoring_case v tok =
     (\<exists>i\<in>{0..length v}. toLowerCase (take (length tok) (drop i v)) = toLowerCase tok)"

text \<open>Test doubles: a fixed environment, a failure with a given HTTP status, vendor
  error body and headers, an operation that fails at every call, one that fails at
  its first call only (the state of the world of these operations counts their calls),
  a remote service that answers every request with the same response, and a call
  without options.\<close>

definition example_env :: "'s Env" where
  "example_env = \<lparr>mathRandom = (\<lambda>s. 0), dateNow = (\<lambda>s. 0), dateParse = (\<lambda>t. None),
                   toISOString = (\<lambda>t. [])\<rparr>"

definition example_failure :: "int \<Rightarrow> GraphErrorBody option \<Rightarrow> (string \<times> jsval) list \<Rightarrow> thrown" where
  "example_failure st body hs =
     ThrownRaw \<lparr>err_response = Some \<lparr>resp_error = body, resp_status = Some st, resp_headers = Some hs\<rparr>,
               err_code = None, err_message = Some ''Request failed'',
               err_string = ''Error: Request failed''\<rparr>"

definition always_failing :: "thrown \<Rightarrow> nat \<Rightarrow> (thrown + jsval) \<times> nat" where
  "always_failing error n = (Inl error, Suc n)"

definition failing_once :: "thrown \<Rightarrow> nat \<Rightarrow> (thrown + jsval) \<times> nat" where
  "failing_once error n = (if n = 0 then Inl error else Inr (JArr []), Suc n)"

definition answering :: "jsval \<Rightarrow> GraphApi" where
  "answering response reqs req = Inr response"

definition no_query_options :: QueryOptions where
  "no_query_options =
     \<lparr>opt_top = JUndefined, opt_filter = JUndefined, opt_select = JUndefined,
      opt_orderBy = JUndefined\<rparr>"


section \<open>Properties of the validators\<close>

subsection \<open>Escaping and page sizes\<close>

lemma count_replace_quotes:
  "count_list (replace_quotes s) (CHR 0x27) = 2 * count_list s (CHR 0x27)"
  by (induction s) simp_all

lemma filter_replace_quotes:
  "filter (\<lambda>c. c \<noteq> CHR 0x27) (replace_quotes s) = filter (\<lambda>c. c \<noteq> CHR 0x27) s"
  by (induction s) simp_all

lemma replace_quotes_concat:
  "replace_quotes s = concat (map (\<lambda>c. if c = CHR 0x27 then [CHR 0x27, CHR 0x27] else [c]) s)"
  by (induction s) simp_all

text \<open>
  Claim C9. For an input string with n single quotes, escapeODataString succeeds and
  its output has exactly 2n single quotes; the characters other than the quote are the
  same, in the same order; and the output is the input with each character kept, except
  that each quote stands twice.
\<close>

theorem C9_escapeODataString_doubles_quotes:
  "\<exists>out. escapeODataString (JStr s) = Inr out
     \<and> count_list out (CHR 0x27) = 2 * count_list s (CHR 0x27)
     \<and> filter (\<lambda>c. c \<noteq> CHR 0x27) out = filter (\<lambda>c. c \<noteq> CHR 0x27) s
     \<and> out = concat (map (\<lambda>c. if c = CHR 0x27 then [CHR 0x27, CHR 0x27] else [c]) s)"
  using count_replace_quotes [of s] filter_replace_quotes [of s] replace_quotes_concat [of s]
  by simp



subsection \<open>The filter denylist\<close>

lemma js_includes_sublist: "js_includes s t \<longleftrightarrow> sublist t s"
  by (induction s) (simp_all add: sublist_Cons_right)

lemma sublist_iff_take_drop:
  "sublist t s \<longleftrightarrow> (\<exists>i\<in>{0..length s}. take (length t) (drop i s) = t)"
proof
  assume "sublist t s"
  then obtain ps ss where s: "s = ps @ t @ ss" by (auto simp: sublist_def)
  have "take (length t) (drop (length ps) s) = t" by (simp add: s)
  moreover have "length ps \<in> {0..length s}" by (simp add: s)
  ultimately show "\<exists>i\<in>{0..length s}. take (length t) (drop i s) = t" by blast
next
  assume "\<exists>i\<in>{0..length s}. take (length t) (drop i s) = t"
  then obtain i where i: "take (length t) (drop i s) = t" by blast
  have "drop i s = take (length t) (drop i s) @ drop (length t) (drop i s)"
    by (simp only: append_take_drop_id)
  then have "s = take i s @ take (length t) (drop i s) @ drop (length t) (drop i s)"
    by (metis append_take_drop_id)
  then have "s = take i s @ t @ drop (length t) (drop i s)" using i by simp
  then show "sublist t s" unfolding sublist_def by blast
qed

lemma contains_ignoring_case_code:
  "contains_ignoring_case v tok \<longleftrightarrow> js_includes (toLowerCase v) (toLowerCase tok)"
  unfolding contains_ignoring_case_def js_includes_sublist sublist_iff_take_drop toLowerCase_def
  by (simp add: take_map drop_map)

lemma check_dangerous_None:
  "check_dangerous lv ds = None \<longleftrightarrow> (\<forall>d\<in>set ds. \<not> js_includes lv (toLowerCase d))"
  by (induction ds) simp_all

lemma check_dangerous_Some:
  "check_dangerous lv ds = Some e \<Longrightarrow> code e = INVALID_PARAMETER"
  by (induction ds) (auto simp: newMCPError_def split: if_splits)

lemma trim_Nil_all_white: "trim v = [] \<Longrightarrow> \<forall>c\<in>set v. isWhiteSpace c"
proof -
  assume "trim v = []"
  then have "dropWhile isWhiteSpace (rev (dropWhile isWhiteSpace v)) = []"
    by (simp add: trim_def)
  then have "\<forall>c\<in>set (dropWhile isWhiteSpace v). isWhiteSpace c"
    by (simp add: dropWhile_eq_Nil_conv)
  then have "dropWhile isWhiteSpace v = []"
    by (metis hd_dropWhile hd_in_set)
  then show ?thesis by (simp add: dropWhile_eq_Nil_conv)
qed

lemma white_not_dollar: "isWhiteSpace c \<Longrightarrow> toLowerChar c \<noteq> CHR ''$''"
  by (auto simp: isWhiteSpace_def toLowerChar_def Let_def)

lemma dangerous_dollar: "tok \<in> set dangerous \<Longrightarrow> \<exists>rest. tok = CHR ''$'' # rest"
  by (auto simp: dangerous_def)

lemma validateFilter_rejects:
  assumes tok: "tok \<in> set dangerous" and c: "contains_ignoring_case v tok"
  shows "\<exists>e. validateFilter (JStr v) = Inl e \<and> code e = INVALID_PARAMETER"
proof -
  from c obtain i where i: "toLowerCase (take (length tok) (drop i v)) = toLowerCase tok"
    by (auto simp: contains_ignoring_case_def)
  from dangerous_dollar [OF tok] obtain rest where tk: "tok = CHR ''$'' # rest" by blast
  from i tk obtain c cs where tc: "take (length tok) (drop i v) = c # cs"
    and lc: "toLowerChar c = toLowerChar (CHR ''$'')"
    by (cases "take (length tok) (drop i v)") (auto simp: toLowerCase_def)
  have "c \<in> set (take (length tok) (drop i v))" by (simp add: tc)
  then have cv: "c \<in> set v" by (meson in_set_takeD in_set_dropD)
  have "toLowerChar (CHR ''$'') = CHR ''$''" by (simp add: toLowerChar_def)
  with lc have "\<not> isWhiteSpace c" using white_not_dollar by metis
  with cv have nb: "trim v \<noteq> []" using trim_Nil_all_white by blast
  from c have "js_includes (toLowerCase v) (toLowerCase tok)"
    by (simp add: contains_ignoring_case_code)
  with tok have "check_dangerous (toLowerCase v) dangerous \<noteq> None"
    unfolding check_dangerous_None by blast
  then obtain e where e: "check_dangerous (toLowerCase v) dangerous = Some e" by blast
  then have "code e = INVALID_PARAMETER" by (rule check_dangerous_Some)
  with e nb show ?thesis by simp
qed

lemma validateFilter_accepts:
  assumes nb: "trim v \<noteq> []" and n: "\<forall>t\<in>set dangerous. \<not> contains_ignoring_case v t"
  shows "validateFilter (JStr v) = Inr (Some v)"
proof -
  from n have "check_dangerous (toLowerCase v) dangerous = None"
    unfolding check_dangerous_None contains_ignoring_case_code by blast
  with nb show ?thesis by simp
qed

lemma validateFilter_contract:
  "(tok \<in> set dangerous \<and> contains_ignoring_case v tok \<longrightarrow>
        (\<exists>e. validateFilter (JStr v) = Inl e \<and> code e = INVALID_PARAMETER))
   \<and> (trim v \<noteq> [] \<and> (\<forall>t\<in>set dangerous. \<not> contains_ignoring_case v t) \<longrightarrow>
        validateFilter (JStr v) = Inr (Some v))
   \<and> (trim v = [] \<longrightarrow> validateFilter (JStr v) = Inr None)
   \<and> validateFilter JUndefined = Inr None
   \<and> validateFilter JNull = Inr None"
  using validateFilter_rejects [of tok v] validateFilter_accepts [of v] by simp

text \<open>
  Claim C7. A string that contains one of the tokens $count, $search, $format, $compute,
  $apply, at any position and in any mix of upper and lower case, is rejected with
  INVALID_PARAMETER; a string that is not blank and contains none of them is returned
  unchanged; a blank string, undefined and null give no value, without a failure.
\<close>

theorem C7_validateFilter_contract:
  "(tok \<in> {''$count'', ''$search'', ''$format'', ''$compute'', ''$apply''}
      \<and> contains_ignoring_case v tok \<longrightarrow>
        (\<exists>e. validateFilter (JStr v) = Inl e \<and> code e = INVALID_PARAMETER))
   \<and> (trim v \<noteq> []
      \<and> (\<forall>t\<in>{''$count'', ''$search'', ''$format'', ''$compute'', ''$apply''}.
            \<not> contains_ignoring_case v t) \<longrightarrow>
        validateFilter (JStr v) = Inr (Some v))
   \<and> (trim v = [] \<longrightarrow> validateFilter (JStr v) = Inr None)
   \<and> validateFilter JUndefined = Inr None
   \<and> validateFilter JNull = Inr None"
proof -
  have T: "{''$count'', ''$search'', ''$format'', ''$compute'', ''$apply''} = set dangerous"
    by (simp add: dangerous_def)
  show ?thesis unfolding T by (rule validateFilter_contract)
qed

theorem C7_validateFilter_contract_witness:
  "contains_ignoring_case ''a $COUNT'' ''$count''
   \<and> (\<exists>e. validateFilter (JStr ''a $COUNT'') = Inl e \<and> code e = INVALID_PARAMETER)
   \<and> validateFilter (JStr ''a eq 1'') = Inr (Some ''a eq 1'')
   \<and> validateFilter (JStr '' '') = Inr None"
proof -
  have c: "contains_ignoring_case ''a $COUNT'' ''$count''"
    unfolding contains_ignoring_case_code
    by (simp add: toLowerCase_def toLowerChar_def char_of_def bit_0)
  have n: "\<forall>t\<in>{''$count'', ''$search'', ''$format'', ''$compute'', ''$apply''}.
      \<not> contains_ignoring_case ''a eq 1'' t"
    unfolding contains_ignoring_case_code
    by (simp add: toLowerCase_def toLowerChar_def char_of_def bit_0)
  have b: "trim ''a eq 1'' \<noteq> []" by (simp add: trim_def isWhiteSpace_def)
  have w: "trim '' '' = []" by (simp add: trim_def isWhiteSpace_def)
  have m: "''$count'' \<in> {''$count'', ''$search'', ''$format'', ''$compute'', ''$apply''}"
    by simp
  have 1: "\<exists>e. validateFilter (JStr ''a $COUNT'') = Inl e \<and> code e = INVALID_PARAMETER"
    using C7_validateFilter_contract [of "''$count''" "''a $COUNT''"] m c by blast
  have 2: "validateFilter (JStr ''a eq 1'') = Inr (Some ''a eq 1'')"
    using C7_validateFilter_contract [of "''$count''" "''a eq 1''"] b n by blast
  have 3: "validateFilter (JStr '' '') = Inr None"
    using C7_validateFilter_contract [of "''$count''" "'' ''"] w by blast
  from c 1 2 3 show ?thesis by blast
qed

section \<open>Properties of the retry engine\<close>

subsection \<open>One iteration of the loop\<close>

lemma retry_loop_success:
  "attempt \<le> maxRetries opts \<Longrightarrow> fn s = (Inr v, s') \<Longrightarrow>
   retry_loop fn opts env attempt lastError s = \<lparr>outcome = Inr v, world = s', trace = [Invoke]\<rparr>"
  by (subst retry_loop.simps) simp

lemma retry_loop_last:
  "attempt = maxRetries opts \<Longrightarrow> fn s = (Inl error, s') \<Longrightarrow>
   retry_loop fn opts env attempt lastError s
     = \<lparr>outcome = Inl (surface error), world = s', trace = [Invoke]\<rparr>"
  by (subst retry_loop.simps) simp

lemma retry_loop_not_retryable:
  "attempt \<le> maxRetries opts \<Longrightarrow> fn s = (Inl error, s') \<Longrightarrow> \<not> isRetryable error opts \<Longrightarrow>
   retry_loop fn opts env attempt lastError s
     = \<lparr>outcome = Inl (surface error), world = s', trace = [Invoke]\<rparr>"
  by (subst retry_loop.simps) simp

lemma retry_loop_retry:
  "attempt < maxRetries opts \<Longrightarrow> fn s = (Inl error, s') \<Longrightarrow> isRetryable error opts \<Longrightarrow>
   retry_loop fn opts env attempt lastError s
     = (retry_loop fn opts env (attempt + 1) error s')
         \<lparr>trace := Invoke # Sleep (next_delay env s' opts attempt error)
                     # trace (retry_loop fn opts env (attempt + 1) error s')\<rparr>"
  by (subst retry_loop.simps) (simp add: Let_def)

subsection \<open>Runs of an operation that always fails\<close>



lemma retry_loop_always_failing_sleeps:
  assumes fails: "\<forall>s. \<exists>error s'. fn s = (Inl error, s') \<and> isRetryable error opts \<and> Q error"
    and delay: "\<forall>error s' k. Q error \<longrightarrow> next_delay env s' opts k error = d"
  shows "attempt \<le> maxRetries opts \<Longrightarrow>
     sleeps (trace (retry_loop fn opts env attempt lastError s))
       = replicate (nat (maxRetries opts - attempt)) d"
proof (induction "nat (maxRetries opts - attempt)" arbitrary: attempt lastError s)
  case 0
  then have last: "attempt = maxRetries opts" by simp
  from fails obtain error s' where f: "fn s = (Inl error, s')" by blast
  have eq: "retry_loop fn opts env attempt lastError s
      = \<lparr>outcome = Inl (surface error), world = s', trace = [Invoke]\<rparr>"
    using last f by (rule retry_loop_last)
  show ?case unfolding eq using last by simp
next
  case (Suc k)
  then have lt: "attempt < maxRetries opts" by simp
  from fails obtain error s' where f: "fn s = (Inl error, s')"
    and r: "isRetryable error opts" and q: "Q error" by blast
  have k: "k = nat (maxRetries opts - (attempt + 1))" using Suc.hyps(2) by simp
  have le: "attempt + 1 \<le> maxRetries opts" using lt by simp
  note IH = Suc.hyps(1) [OF k le, of error s']
  have eq: "retry_loop fn opts env attempt lastError s
      = (retry_loop fn opts env (attempt + 1) error s')
          \<lparr>trace := Invoke # Sleep (next_delay env s' opts attempt error)
                      # trace (retry_loop fn opts env (attempt + 1) error s')\<rparr>"
    using lt f r by (rule retry_loop_retry)
  have n2: "nat (maxRetries opts - attempt) = Suc (nat (maxRetries opts - (attempt + 1)))"
    using lt by simp
  have d: "next_delay env s' opts attempt error = d" using delay q by blast
  show ?case unfolding eq n2 using IH d by simp
qed

subsection \<open>Classification of what surfaces\<close>

lemma status_is_raw: "response_status error = Some st \<Longrightarrow> surface error = handleGraphError error"
  by (cases error) simp_all

lemma classify_by_envelope:
  "response_error error = Some g \<Longrightarrow>
   code (handleGraphError error)
     = mapGraphErrorCode (case ge_code g of None \<Rightarrow> [] | Some c \<Rightarrow> c)"
  by (simp add: handleGraphError_def newMCPErrorD_def)


lemma default_retryable_503:
  "isRetryable (example_failure 503 body hs) (merge_options no_options)"
  by (simp add: isRetryable_def merge_options_def no_options_def DEFAULT_RETRY_OPTIONS_def
      example_failure_def)

subsection \<open>Retry determinism\<close>



text \<open>
  Claim C5. When the call fails with HTTP status 400 and the vendor code InvalidRequest,
  and the failure is not retryable under the options, the operation is called exactly
  once, nothing is slept, and the run ends with a classified error of kind
  INVALID_PARAMETER. The witness shows that the default options make this failure
  non-retryable.
\<close>

theorem C5_non_retryable_400_once:
  assumes f: "fn s = (Inl error, s')"
    and st: "response_status error = Some 400"
    and g: "response_error error = Some g"
    and c: "ge_code g = Some ''InvalidRequest''"
    and nr: "\<not> isRetryable error (merge_options options)"
    and m: "0 \<le> maxRetries (merge_options options)"
  shows "trace (retryWithBackoff fn options env s) = [Invoke]
     \<and> sleeps (trace (retryWithBackoff fn options env s)) = []
     \<and> invocations (trace (retryWithBackoff fn options env s)) = 1
     \<and> (\<exists>e. outcome (retryWithBackoff fn options env s) = Inl e \<and> code e = INVALID_PARAMETER)"
proof -
  have eq: "retryWithBackoff fn options env s
      = \<lparr>outcome = Inl (surface error), world = s', trace = [Invoke]\<rparr>"
    unfolding retryWithBackoff_def using m f nr by (rule retry_loop_not_retryable)
  have "code (handleGraphError error) = INVALID_PARAMETER"
    using classify_by_envelope [OF g] c by (simp add: mapGraphErrorCode_def)
  then show ?thesis unfolding eq using status_is_raw [OF st] by (simp add: invocations_def)
qed

theorem C5_non_retryable_400_once_witness:
  "\<not> isRetryable
       (example_failure 400
          (Some \<lparr>ge_code = Some ''InvalidRequest'', ge_message = Some ''Bad'', ge_innerError = JUndefined\<rparr>) [])
       (merge_options no_options)
   \<and> trace (retryWithBackoff
       (always_failing (example_failure 400
          (Some \<lparr>ge_code = Some ''InvalidRequest'', ge_message = Some ''Bad'', ge_innerError = JUndefined\<rparr>) []))
       no_options example_env 0) = [Invoke]
   \<and> (\<exists>e. outcome (retryWithBackoff
       (always_failing (example_failure 400
          (Some \<lparr>ge_code = Some ''InvalidRequest'', ge_message = Some ''Bad'', ge_innerError = JUndefined\<rparr>) []))
       no_options example_env 0) = Inl e \<and> code e = INVALID_PARAMETER)"
proof -
  let ?g = "\<lparr>ge_code = Some ''InvalidRequest'', ge_message = Some ''Bad'', ge_innerError = JUndefined\<rparr>"
  let ?e = "example_failure 400 (Some ?g) []"
  have nr: "\<not> isRetryable ?e (merge_options no_options)"
    by (simp add: isRetryable_def merge_options_def no_options_def DEFAULT_RETRY_OPTIONS_def
      example_failure_def)
  have f: "always_failing ?e 0 = (Inl ?e, Suc 0)" by (simp add: always_failing_def)
  have st: "response_status ?e = Some 400" by (simp add: example_failure_def)
  have g: "response_error ?e = Some ?g" by (simp add: example_failure_def)
  have c: "ge_code ?g = Some ''InvalidRequest''" by simp
  have m: "0 \<le> maxRetries (merge_options no_options)"
    by (simp add: merge_options_def no_options_def DEFAULT_RETRY_OPTIONS_def)
  from C5_non_retryable_400_once [where fn = "always_failing ?e" and s = 0, OF f st g c nr m, of example_env] nr
  show ?thesis by simp
qed

subsection \<open>The server's retry hint\<close>

lemma parseInt10_2: "parseInt10 ''2'' = Some 2"
  by (simp add: parseInt10_def isWhiteSpace_def isDigit_def digits_value_def)

lemma retry_after_2:
  "response_header error ''retry-after'' = JNum (Num 2)
     \<or> response_header error ''retry-after'' = JStr ''2'' \<Longrightarrow>
   getRetryAfterDelay env s error = Some (Num 2000)"
  by (auto simp: getRetryAfterDelay_def parseInt10_2)

lemma next_delay_2:
  assumes "response_header error ''retry-after'' = JNum (Num 2)
     \<or> response_header error ''retry-after'' = JStr ''2''"
  shows "next_delay env s opts k error = Num 2000"
  using retry_after_2 [OF assms, of env s] by (simp add: next_delay_def)


text \<open>
  Claim C6. At every attempt before the last, whatever the base delay, the maximum delay,
  the jitter and the random number, a retryable failure that carries the header
  retry-after with the value 2 (the number, or the text "2") makes the loop sleep exactly
  2000 milliseconds before the next attempt; so a run whose calls all fail this way
  sleeps 2000 milliseconds each time.
\<close>

theorem C6_retry_after_2_sleeps_2000:
  "(fn s = (Inl error, s') \<and> isRetryable error opts \<and> attempt < maxRetries opts
      \<and> (response_header error ''retry-after'' = JNum (Num 2)
          \<or> response_header error ''retry-after'' = JStr ''2'') \<longrightarrow>
      next_delay env s' opts attempt error = Num 2000
      \<and> trace (retry_loop fn opts env attempt lastError s)
          = Invoke # Sleep (Num 2000) # trace (retry_loop fn opts env (attempt + 1) error s'))
   \<and> (0 \<le> maxRetries (merge_options options)
       \<and> (\<forall>s. \<exists>error s'. fn s = (Inl error, s') \<and> isRetryable error (merge_options options)
             \<and> (response_header error ''retry-after'' = JNum (Num 2)
                 \<or> response_header error ''retry-after'' = JStr ''2'')) \<longrightarrow>
       sleeps (trace (retryWithBackoff fn options env s))
         = replicate (nat (maxRetries (merge_options options))) (Num 2000))"
proof (intro conjI impI)
  assume a: "fn s = (Inl error, s') \<and> isRetryable error opts \<and> attempt < maxRetries opts
      \<and> (response_header error ''retry-after'' = JNum (Num 2)
          \<or> response_header error ''retry-after'' = JStr ''2'')"
  then have h: "response_header error ''retry-after'' = JNum (Num 2)
          \<or> response_header error ''retry-after'' = JStr ''2''" by simp
  then have d: "next_delay env s' opts attempt error = Num 2000"
    by (rule next_delay_2)
  then show "next_delay env s' opts attempt error = Num 2000" .
  have "retry_loop fn opts env attempt lastError s
      = (retry_loop fn opts env (attempt + 1) error s')
          \<lparr>trace := Invoke # Sleep (next_delay env s' opts attempt error)
                      # trace (retry_loop fn opts env (attempt + 1) error s')\<rparr>"
    using a by (intro retry_loop_retry) simp_all
  then show "trace (retry_loop fn opts env attempt lastError s)
      = Invoke # Sleep (Num 2000) # trace (retry_loop fn opts env (attempt + 1) error s')"
    using d by simp
next
  let ?opts = "merge_options options"
  let ?Q = "\<lambda>error. response_header error ''retry-after'' = JNum (Num 2)
                 \<or> response_header error ''retry-after'' = JStr ''2''"
  assume a: "0 \<le> maxRetries ?opts
       \<and> (\<forall>s. \<exists>error s'. fn s = (Inl error, s') \<and> isRetryable error ?opts \<and> ?Q error)"
  then have f: "\<forall>s. \<exists>error s'. fn s = (Inl error, s') \<and> isRetryable error ?opts \<and> ?Q error"
    and le: "0 \<le> maxRetries ?opts" by blast+
  have d: "\<forall>error s' k. ?Q error \<longrightarrow> next_delay env s' ?opts k error = Num 2000"
    by (intro allI impI next_delay_2)
  show "sleeps (trace (retryWithBackoff fn options env s))
      = replicate (nat (maxRetries ?opts)) (Num 2000)"
    using retry_loop_always_failing_sleeps [where Q = ?Q, OF f d le, of ThrownUndefined s]
    by (simp add: retryWithBackoff_def)
qed

theorem C6_retry_after_2_sleeps_2000_witness:
  "sleeps (trace (retryWithBackoff
       (always_failing (example_failure 503 None [(''retry-after'', JStr ''2'')]))
       no_options example_env 0)) = [Num 2000, Num 2000, Num 2000]
   \<and> trace (retry_loop (failing_once (example_failure 429 None [(''retry-after'', JNum (Num 2))]))
       DEFAULT_RETRY_OPTIONS example_env 0 ThrownUndefined 0)
      = [Invoke, Sleep (Num 2000), Invoke]"
proof -
  let ?e = "example_failure 503 None [(''retry-after'', JStr ''2'')]"
  let ?e2 = "example_failure 429 None [(''retry-after'', JNum (Num 2))]"
  have m: "maxRetries (merge_options no_options) = 3"
    by (simp add: merge_options_def no_options_def DEFAULT_RETRY_OPTIONS_def)
  have h: "\<forall>s. \<exists>error s'. always_failing ?e s = (Inl error, s')
      \<and> isRetryable error (merge_options no_options)
      \<and> (response_header error ''retry-after'' = JNum (Num 2)
          \<or> response_header error ''retry-after'' = JStr ''2'')"
    using default_retryable_503 [of None "[(''retry-after'', JStr ''2'')]"]
    by (simp add: always_failing_def) (simp add: example_failure_def)
  have r2: "isRetryable ?e2 DEFAULT_RETRY_OPTIONS"
    by (simp add: isRetryable_def DEFAULT_RETRY_OPTIONS_def example_failure_def)
  have h2: "response_header ?e2 ''retry-after'' = JNum (Num 2)"
    by (simp add: example_failure_def)
  have f2: "failing_once ?e2 0 = (Inl ?e2, Suc 0)" by (simp add: failing_once_def)
  have lt: "0 < maxRetries DEFAULT_RETRY_OPTIONS" by (simp add: DEFAULT_RETRY_OPTIONS_def)
  have next_ok: "retry_loop (failing_once ?e2) DEFAULT_RETRY_OPTIONS example_env (0 + 1) ?e2 (Suc 0)
      = \<lparr>outcome = Inr (JArr []), world = Suc (Suc 0), trace = [Invoke]\<rparr>"
    by (rule retry_loop_success) (simp_all add: DEFAULT_RETRY_OPTIONS_def failing_once_def)
  from C6_retry_after_2_sleeps_2000 [of "always_failing ?e" 0 ?e "Suc 0" "merge_options no_options" 0 example_env
      ThrownUndefined no_options] h m
  have a: "sleeps (trace (retryWithBackoff (always_failing ?e) no_options example_env 0))
      = [Num 2000, Num 2000, Num 2000]"
    by (simp add: numeral_3_eq_3)
  from C6_retry_after_2_sleeps_2000 [of "failing_once ?e2" 0 ?e2 "Suc 0" DEFAULT_RETRY_OPTIONS 0 example_env
      ThrownUndefined no_options] f2 r2 h2 lt next_ok
  have b: "trace (retry_loop (failing_once ?e2) DEFAULT_RETRY_OPTIONS example_env 0 ThrownUndefined 0)
      = [Invoke, Sleep (Num 2000), Invoke]"
    by simp
  from a b show ?thesis by simp
qed



section \<open>Properties of the query builders\<close>

lemma ErrorCode_value_not_network:
  "ErrorCode_value c \<noteq> ''ECONNREFUSED'' \<and> ErrorCode_value c \<noteq> ''ENOTFOUND''
   \<and> ErrorCode_value c \<noteq> ''ETIMEDOUT'' \<and> ErrorCode_value c \<noteq> ''ECONNRESET''
   \<and> ErrorCode_value c \<noteq> ''EAI_AGAIN''"
  by (cases c) simp_all

lemma handleGraphError_classified:
  "handleGraphError (ThrownMCP e) =
     \<lparr>message = (if message e \<noteq> [] then message e else ''An unexpected error occurred''),
      code = UNKNOWN_ERROR,
      details = Some [(''originalError'',
                       JStr (if message e \<noteq> [] then message e else ''MCPError''))]\<rparr>"
  using ErrorCode_value_not_network [of "code e"]
  by (simp add: handleGraphError_def network_or_generic_def newMCPErrorD_def Let_def)

lemma classified_retryable:
  "isRetryable (ThrownMCP e) (merge_options no_options)
     \<longleftrightarrow> code e = RATE_LIMITED \<or> code e = TIMEOUT"
  using ErrorCode_value_not_network [of "code e"]
  by (simp add: isRetryable_def merge_options_def no_options_def DEFAULT_RETRY_OPTIONS_def)

lemma default_maxRetries: "maxRetries (merge_options no_options) = 3"
  by (simp add: merge_options_def no_options_def DEFAULT_RETRY_OPTIONS_def)

lemma retry_rewrapped_failure:
  assumes b: "body reqs = (Inl error, reqs')"
    and c: "code (handleGraphError error) \<noteq> RATE_LIMITED"
           "code (handleGraphError error) \<noteq> TIMEOUT"
  shows "retryWithBackoff (try_catch body) no_options env reqs
     = \<lparr>outcome = Inl (handleGraphError error), world = reqs', trace = [Invoke]\<rparr>"
proof -
  let ?e = "handleGraphError error"
  have f: "try_catch body reqs = (Inl (ThrownMCP ?e), reqs')"
    using b by (simp add: try_catch_def)
  have n: "\<not> isRetryable (ThrownMCP ?e) (merge_options no_options)"
    using c by (simp add: classified_retryable)
  have m: "0 \<le> maxRetries (merge_options no_options)" by (simp add: default_maxRetries)
  show ?thesis
    unfolding retryWithBackoff_def
    using retry_loop_not_retryable [where fn = "try_catch body" and s = reqs, OF m f n]
    by simp
qed

lemma retry_returned_value:
  assumes b: "body reqs = (Inr v, reqs')"
  shows "retryWithBackoff (try_catch body) no_options env reqs
     = \<lparr>outcome = Inr v, world = reqs', trace = [Invoke]\<rparr>"
proof -
  have f: "try_catch body reqs = (Inr v, reqs')" using b by (simp add: try_catch_def)
  have m: "0 \<le> maxRetries (merge_options no_options)" by (simp add: default_maxRetries)
  show ?thesis
    unfolding retryWithBackoff_def
    using retry_loop_success [where fn = "try_catch body" and s = reqs, OF m f]
    by simp
qed

lemma validation_failure_surfaces_unknown:
  assumes "build reqs = Inl e"
  shows "retryWithBackoff (try_catch (fetch_list api build)) no_options env reqs
       = \<lparr>outcome = Inl (handleGraphError (ThrownMCP e)), world = reqs, trace = [Invoke]\<rparr>"
    and "retryWithBackoff (try_catch (fetch_validated_list api build)) no_options env reqs
       = \<lparr>outcome = Inl (handleGraphError (ThrownMCP e)), world = reqs, trace = [Invoke]\<rparr>"
    and "retryWithBackoff (try_catch (fetch_object api build)) no_options env reqs
       = \<lparr>outcome = Inl (handleGraphError (ThrownMCP e)), world = reqs, trace = [Invoke]\<rparr>"
proof -
  have c: "code (handleGraphError (ThrownMCP e)) \<noteq> RATE_LIMITED"
    "code (handleGraphError (ThrownMCP e)) \<noteq> TIMEOUT"
    by (simp_all add: handleGraphError_classified)
  have 1: "fetch_list api build reqs = (Inl (ThrownMCP e), reqs)"
    using assms by (simp add: fetch_list_def)
  have 2: "fetch_validated_list api build reqs = (Inl (ThrownMCP e), reqs)"
    using assms by (simp add: fetch_validated_list_def)
  have 3: "fetch_object api build reqs = (Inl (ThrownMCP e), reqs)"
    using assms by (simp add: fetch_object_def)
  show "retryWithBackoff (try_catch (fetch_list api build)) no_options env reqs
       = \<lparr>outcome = Inl (handleGraphError (ThrownMCP e)), world = reqs, trace = [Invoke]\<rparr>"
    using 1 c by (rule retry_rewrapped_failure)
  show "retryWithBackoff (try_catch (fetch_validated_list api build)) no_options env reqs
       = \<lparr>outcome = Inl (handleGraphError (ThrownMCP e)), world = reqs, trace = [Invoke]\<rparr>"
    using 2 c by (rule retry_rewrapped_failure)
  show "retryWithBackoff (try_catch (fetch_object api build)) no_options env reqs
       = \<lparr>outcome = Inl (handleGraphError (ThrownMCP e)), world = reqs, trace = [Invoke]\<rparr>"
    using 3 c by (rule retry_rewrapped_failure)
qed

lemma envelope_without_value:
  assumes b: "build reqs = Inr req" and a: "api reqs req = Inr (JObj kvs)"
    and v: "map_of kvs ''value'' = None"
  shows "retryWithBackoff (try_catch (fetch_list api build)) no_options env reqs
       = \<lparr>outcome = Inr (JArr []), world = reqs @ [req], trace = [Invoke]\<rparr>"
    and "retryWithBackoff (try_catch (fetch_validated_list api build)) no_options env reqs
       = \<lparr>outcome = Inl (handleGraphError (ThrownMCP
            (newMCPError ''Response does not contain expected value array'' INVALID_RESPONSE))),
          world = reqs @ [req], trace = [Invoke]\<rparr>"
proof -
  have 1: "fetch_list api build reqs = (Inr (JArr []), reqs @ [req])"
    using b a v by (simp add: fetch_list_def request_get_def)
  have 2: "fetch_validated_list api build reqs
      = (Inl (ThrownMCP (newMCPError ''Response does not contain expected value array''
                          INVALID_RESPONSE)), reqs @ [req])"
    using b a v by (simp add: fetch_validated_list_def request_get_def validateResponse_def)
  have c: "code (handleGraphError (ThrownMCP e)) \<noteq> RATE_LIMITED"
    "code (handleGraphError (ThrownMCP e)) \<noteq> TIMEOUT" for e
    by (simp_all add: handleGraphError_classified)
  show "retryWithBackoff (try_catch (fetch_list api build)) no_options env reqs
       = \<lparr>outcome = Inr (JArr []), world = reqs @ [req], trace = [Invoke]\<rparr>"
    using 1 by (rule retry_returned_value)
  show "retryWithBackoff (try_catch (fetch_validated_list api build)) no_options env reqs
       = \<lparr>outcome = Inl (handleGraphError (ThrownMCP
            (newMCPError ''Response does not contain expected value array'' INVALID_RESPONSE))),
          world = reqs @ [req], trace = [Invoke]\<rparr>"
    using 2 c by (rule retry_rewrapped_failure)
qed

lemmas method_defs =
  listUsers_def searchUsers_def getInactiveUsers_def getUsersWithMFAStatus_def
  getUserSignIns_def listGroups_def getGroupMembers_def getGroupOwners_def getUserGroups_def
  searchGroups_def getGroupTransitiveMembers_def listApplications_def
  listServicePrincipals_def getApplicationOwners_def searchApplications_def listDevices_def
  getRegisteredOwners_def getRegisteredUsers_def getUserDevices_def searchDevices_def
  getInactiveDevices_def getUserRegistrationDetails_def getUserAuthMethodsSummary_def
  getSignInsReport_def getFailedSignInsReport_def getAuditLogs_def getRiskyUsers_def
  getRoleAssignments_def getRoleDefinitions_def getUsersWithAdminRoles_def
  getLicenseUsageSummary_def getConditionalAccessPolicies_def

lemma run_list_call_shape:
  "run_list_call api env call =
     retryWithBackoff
       (try_catch ((if validates_response call then fetch_validated_list else fetch_list) api
          (\<lambda>reqs. list_call_request env reqs call)))
       no_options env"
  by (cases call) (simp_all add: method_defs)


text \<open>A validation failure of any list-shaped method surfaces the same way: one call, no
  request, and the kind UNKNOWN_ERROR.\<close>

lemma list_call_validation_failure:
  assumes "list_call_request env reqs call = Inl e"
  shows "run_list_call api env call reqs
       = \<lparr>outcome = Inl (handleGraphError (ThrownMCP e)), world = reqs, trace = [Invoke]\<rparr>"
    and "code (handleGraphError (ThrownMCP e)) = UNKNOWN_ERROR"
proof -
  show "run_list_call api env call reqs
       = \<lparr>outcome = Inl (handleGraphError (ThrownMCP e)), world = reqs, trace = [Invoke]\<rparr>"
    using validation_failure_surfaces_unknown(1,2)
      [where build = "\<lambda>reqs. list_call_request env reqs call" and api = api and reqs = reqs
         and env = env, OF assms]
    by (simp add: run_list_call_shape)
  show "code (handleGraphError (ThrownMCP e)) = UNKNOWN_ERROR"
    by (simp add: handleGraphError_classified)
qed

subsection \<open>The requests that the methods build\<close>

text \<open>The search requests put the escaped term into the filter; for the search term Al
  and the page size 5, \<^verbatim>\<open>searchUsers\<close> builds the filter over its five fields.\<close>

lemma search_request_escapes:
  assumes "search_request p fieldNames (JStr term) top' = Inr r"
  shows "\<exists>validatedTop. modifiers r
     = [FilterBy (join '' or '' (map (\<lambda>f. startswith f (replace_quotes term)) fieldNames)),
        Top validatedTop]"
  using assms
  by (auto simp: search_request_def bindE_def split: sum.splits if_splits)

lemma searchUsers_request_Al:
  "searchUsers_request (JStr ''Al'') (JNum (Num 5))
     = Inr \<lparr>path = ''/users'',
            modifiers =
              [FilterBy (''startswith(displayName,'' @ [CHR 0x27] @ ''Al'' @ [CHR 0x27]
                 @ '') or startswith(givenName,'' @ [CHR 0x27] @ ''Al'' @ [CHR 0x27]
                 @ '') or startswith(surname,'' @ [CHR 0x27] @ ''Al'' @ [CHR 0x27]
                 @ '') or startswith(mail,'' @ [CHR 0x27] @ ''Al'' @ [CHR 0x27]
                 @ '') or startswith(userPrincipalName,'' @ [CHR 0x27] @ ''Al'' @ [CHR 0x27]
                 @ '')''),
               Top 5]\<rparr>"
proof -
  have t: "trim ''Al'' \<noteq> []" by (simp add: trim_def isWhiteSpace_def)
  have i: "isInteger 5" by (simp add: isInteger_def)
  show ?thesis
    using t i
    by (simp add: searchUsers_request_def search_request_def bindE_def default_arg_def
        MAX_TOP_def startswith_def)
qed

lemma show_int_999: "show_int 999 = ''999''"
  by code_simp

lemma getUserGroups_request_1000:
  "getUserGroups_request (JStr ''x'') (JNum (Num 1000))
     = Inl (newMCPError ''top cannot exceed 999'' INVALID_PARAMETER)"
proof -
  have t: "trim ''x'' \<noteq> []" by (simp add: trim_def isWhiteSpace_def)
  have i: "isInteger 1000" by (simp add: isInteger_def)
  show ?thesis
    using t i show_int_999
    by (simp add: getUserGroups_request_def relationship_request_def bindE_def default_arg_def
        MAX_TOP_def)
qed

text \<open>
  Claim C1, at getUserGroups with userId "x" and top 1000. The validation error is raised
  inside the \<^verbatim>\<open>try\<close> block, so the \<^verbatim>\<open>catch\<close> hands it to \<^verbatim>\<open>handleGraphError\<close>,
  which knows no classified errors and wraps it again: the run ends after one call and
  without a network request, but with the kind UNKNOWN_ERROR, not INVALID_PARAMETER.
\<close>

theorem C1_getUserGroups_top_1000_surfaces_unknown:
  "getUserGroups api env (JStr ''x'') (JNum (Num 1000)) reqs
     = \<lparr>outcome = Inl \<lparr>message = ''top cannot exceed 999'', code = UNKNOWN_ERROR,
                         details = Some [(''originalError'', JStr ''top cannot exceed 999'')]\<rparr>,
        world = reqs, trace = [Invoke]\<rparr>"
  unfolding getUserGroups_def
  using validation_failure_surfaces_unknown(1)
    [where build = "\<lambda>reqs. getUserGroups_request (JStr ''x'') (JNum (Num 1000))"
       and reqs = reqs and api = api and env = env, OF getUserGroups_request_1000]
  by (simp add: handleGraphError_classified newMCPError_def)

text \<open>
  Claim C2, at getUserSignIns with the userId o'neil. The filter holds the userId as it
  was given, with its quote single, where escapeODataString would have doubled it.
\<close>

theorem C2_getUserSignIns_does_not_escape:
  "getUserSignIns_request env reqs (JStr (''o'' @ [CHR 0x27] @ ''neil'')) JUndefined
     = Inr \<lparr>path = ''/auditLogs/signIns'',
            modifiers =
              [FilterBy (''userId eq '' @ [CHR 0x27] @ ''o'' @ [CHR 0x27] @ ''neil'' @ [CHR 0x27]
                         @ '' and createdDateTime ge '' @ startDateStr env reqs 30),
               OrderBy (JStr ''createdDateTime desc'')]\<rparr>
   \<and> escapeODataString (JStr (''o'' @ [CHR 0x27] @ ''neil''))
     = Inr (''o'' @ [CHR 0x27, CHR 0x27] @ ''neil'')"
proof -
  have t: "trim (''o'' @ [CHR 0x27] @ ''neil'') \<noteq> []" by (simp add: trim_def isWhiteSpace_def)
  have i: "isInteger 30" by (simp add: isInteger_def)
  show ?thesis
    using t i
    by (simp add: getUserSignIns_request_def bindE_def default_arg_def DEFAULT_DAYS_def
        MAX_DAYS_def)
qed

lemma list_request_default:
  "list_request p no_query_options = Inr \<lparr>path = p, modifiers = [Top 100]\<rparr>"
  by (simp add: list_request_def no_query_options_def bindE_def DEFAULT_TOP_LARGE_def)

text \<open>
  Claim C3 as stated fails for listUsers: with the envelope \<^verbatim>\<open>{}\<close> as the response,
  \<^verbatim>\<open>validateResponse\<close> rejects it and the method does not return the empty list.
\<close>

theorem C3_listUsers_missing_value_fails:
  "outcome (listUsers (answering (JObj [])) example_env no_query_options []) \<noteq> Inr (JArr [])
   \<and> world (listUsers (answering (JObj [])) example_env no_query_options [])
       = [\<lparr>path = ''/users'', modifiers = [Top 100]\<rparr>]"
  unfolding listUsers_def listUsers_request_def
  using envelope_without_value(2)
    [where build = "\<lambda>reqs. list_request ''/users'' no_query_options"
       and api = "answering (JObj [])" and reqs = "[]" and kvs = "[]" and env = example_env,
      OF list_request_default]
  by (simp add: answering_def)

text \<open>
  Claim C3, amended. When the arguments validate and the remote call returns an envelope
  without the field \<^verbatim>\<open>value\<close>: a list-shaped method outside \<^verbatim>\<open>UserTools\<close> returns the
  empty list after one call and one request; a list-shaped method of \<^verbatim>\<open>UserTools\<close>,
  which validates the response first, fails with a classified error after one call and
  one request.
\<close>

theorem C3_missing_value_by_method:
  "(\<not> validates_response call \<and> list_call_request env reqs call = Inr req
      \<and> api reqs req = Inr (JObj kvs) \<and> map_of kvs ''value'' = None \<longrightarrow>
        run_list_call api env call reqs
          = \<lparr>outcome = Inr (JArr []), world = reqs @ [req], trace = [Invoke]\<rparr>)
   \<and> (validates_response call \<and> list_call_request env reqs call = Inr req
      \<and> api reqs req = Inr (JObj kvs) \<and> map_of kvs ''value'' = None \<longrightarrow>
        (\<exists>e. outcome (run_list_call api env call reqs) = Inl e)
        \<and> world (run_list_call api env call reqs) = reqs @ [req]
        \<and> trace (run_list_call api env call reqs) = [Invoke])"
proof (intro conjI impI)
  assume a: "\<not> validates_response call \<and> list_call_request env reqs call = Inr req
      \<and> api reqs req = Inr (JObj kvs) \<and> map_of kvs ''value'' = None"
  then have b: "list_call_request env reqs call = Inr req"
    and r: "api reqs req = Inr (JObj kvs)" and v: "map_of kvs ''value'' = None" by simp_all
  show "run_list_call api env call reqs
      = \<lparr>outcome = Inr (JArr []), world = reqs @ [req], trace = [Invoke]\<rparr>"
    using envelope_without_value(1)
      [where build = "\<lambda>reqs. list_call_request env reqs call" and api = api and reqs = reqs,
        OF b r v] a
    by (simp add: run_list_call_shape)
next
  assume a: "validates_response call \<and> list_call_request env reqs call = Inr req
      \<and> api reqs req = Inr (JObj kvs) \<and> map_of kvs ''value'' = None"
  then have b: "list_call_request env reqs call = Inr req"
    and r: "api reqs req = Inr (JObj kvs)" and v: "map_of kvs ''value'' = None" by simp_all
  have eq: "run_list_call api env call reqs
      = \<lparr>outcome = Inl (handleGraphError (ThrownMCP
            (newMCPError ''Response does not contain expected value array'' INVALID_RESPONSE))),
          world = reqs @ [req], trace = [Invoke]\<rparr>"
    using envelope_without_value(2)
      [where build = "\<lambda>reqs. list_call_request env reqs call" and api = api and reqs = reqs,
        OF b r v] a
    by (simp add: run_list_call_shape)
  show "\<exists>e. outcome (run_list_call api env call reqs) = Inl e" unfolding eq by simp
  show "world (run_list_call api env call reqs) = reqs @ [req]" unfolding eq by simp
  show "trace (run_list_call api env call reqs) = [Invoke]" unfolding eq by simp
qed

theorem C3_missing_value_by_method_witness:
  "listGroups (answering (JObj [(''@odata.context'', JStr ''groups'')])) example_env
       no_query_options []
     = \<lparr>outcome = Inr (JArr []), world = [\<lparr>path = ''/groups'', modifiers = [Top 100]\<rparr>],
        trace = [Invoke]\<rparr>
   \<and> (\<exists>e. outcome (listUsers (answering (JObj [(''@odata.context'', JStr ''users'')]))
              example_env no_query_options []) = Inl e)"
proof -
  have g: "list_call_request example_env [] (ListGroups no_query_options)
      = Inr \<lparr>path = ''/groups'', modifiers = [Top 100]\<rparr>"
    by (simp add: listGroups_request_def list_request_default)
  have u: "list_call_request example_env [] (ListUsers no_query_options)
      = Inr \<lparr>path = ''/users'', modifiers = [Top 100]\<rparr>"
    by (simp add: listUsers_request_def list_request_default)
  from C3_missing_value_by_method [of "ListGroups no_query_options" example_env "[]"
      "\<lparr>path = ''/groups'', modifiers = [Top 100]\<rparr>"
      "answering (JObj [(''@odata.context'', JStr ''groups'')])"
      "[(''@odata.context'', JStr ''groups'')]"] g
  have 1: "listGroups (answering (JObj [(''@odata.context'', JStr ''groups'')])) example_env
       no_query_options []
     = \<lparr>outcome = Inr (JArr []), world = [\<lparr>path = ''/groups'', modifiers = [Top 100]\<rparr>],
        trace = [Invoke]\<rparr>"
    by (simp add: answering_def)
  from C3_missing_value_by_method [of "ListUsers no_query_options" example_env "[]"
      "\<lparr>path = ''/users'', modifiers = [Top 100]\<rparr>"
      "answering (JObj [(''@odata.context'', JStr ''users'')])"
      "[(''@odata.context'', JStr ''users'')]"] u
  have 2: "\<exists>e. outcome (listUsers (answering (JObj [(''@odata.context'', JStr ''users'')]))
              example_env no_query_options []) = Inl e"
    by (simp add: answering_def)
  from 1 2 show ?thesis by simp
qed

end
